theory Spec2Isabelle
  imports Main
begin

section \<open>Data model (types.ts)\<close>

text \<open>
  The try-on screen of the application keeps a layered outfit history, a cursor into it
  and a pose index as React state in \<^verbatim>\<open>App.tsx\<close>. The records below follow
  \<^verbatim>\<open>types.ts\<close>. Of a wardrobe item only the required fields are kept: the optional
  display metadata (product URL, brand, category, price, product type, description) is read
  by the analytics calls only. Image URLs, ids, names and pose keys are values that the
  handlers only compare, concatenate and test for emptiness; they are Isabelle strings.
\<close>

record WardrobeItem =
  item_id :: string
  item_name :: string
  image_urls :: "string list"

record PoseImage =
  standard :: string
  enhanced :: "string option"

text \<open>
  \<^verbatim>\<open>poseImages: Record<string, PoseImage>\<close> is a JavaScript object whose keys are
  enumerated in insertion order (\<^verbatim>\<open>Object.keys\<close>; none of the keys written by the
  application is an array index), so it is an association list in insertion order.
\<close>

type_synonym PoseImages = "(string \<times> PoseImage) list"

record OutfitLayer =
  garment :: "WardrobeItem option"
  poseImages :: PoseImages

text \<open>A garment file is passed on to the remote service unread; it stands for its name.\<close>

type_synonym File = string

section \<open>JavaScript primitives used by the handlers\<close>

text \<open>\<^verbatim>\<open>obj[key]\<close>: the value stored under a key, \<^verbatim>\<open>undefined\<close> when absent.\<close>

fun objGet :: "PoseImages \<Rightarrow> string \<Rightarrow> PoseImage option" where
  "objGet [] k = None"
| "objGet ((k', v) # rest) k = (if k' = k then Some v else objGet rest k)"

text \<open>
  \<^verbatim>\<open>{ ...obj, [key]: value }\<close>: an existing key keeps its position and takes the new
  value, a new key is added at the end.
\<close>

fun objSet :: "PoseImages \<Rightarrow> string \<Rightarrow> PoseImage \<Rightarrow> PoseImages" where
  "objSet [] k v = [(k, v)]"
| "objSet ((k', v') # rest) k v = (if k' = k then (k, v) # rest else (k', v') # objSet rest k v)"

definition objKeys :: "PoseImages \<Rightarrow> string list" where
  "objKeys obj = map fst obj"

text \<open>\<^verbatim>\<open>arr[i]\<close> for a numeric index: \<^verbatim>\<open>undefined\<close> outside the array.\<close>

definition arrGet :: "'a list \<Rightarrow> int \<Rightarrow> 'a option" where
  "arrGet xs i = (if 0 \<le> i \<and> i < int (length xs) then Some (xs ! nat i) else None)"

text \<open>
  \<^verbatim>\<open>arr.slice(0, end)\<close>: a negative end counts from the end of the array, and the
  result is clamped to the array.
\<close>

definition slice0 :: "'a list \<Rightarrow> int \<Rightarrow> 'a list" where
  "slice0 xs e = (if e < 0 then take (nat (int (length xs) + e)) xs else take (nat e) xs)"

text \<open>\<^verbatim>\<open>arr.map((x, index) => f(x, index))\<close>.\<close>

definition mapIndexed :: "(nat \<Rightarrow> 'a \<Rightarrow> 'b) \<Rightarrow> 'a list \<Rightarrow> 'b list" where
  "mapIndexed f xs = map (\<lambda>i. f i (xs ! i)) [0..<length xs]"

text \<open>Truthiness of a \<^verbatim>\<open>string | null | undefined\<close>: the empty string is falsy.\<close>

fun truthy :: "string option \<Rightarrow> bool" where
  "truthy None = False"
| "truthy (Some s) = (s \<noteq> [])"

text \<open>\<^verbatim>\<open>a ?? b\<close>: only \<^verbatim>\<open>null\<close> and \<^verbatim>\<open>undefined\<close> fall through.\<close>

fun nullish :: "'a option \<Rightarrow> 'a option \<Rightarrow> 'a option" where
  "nullish (Some a) b = Some a"
| "nullish None b = b"

section \<open>Texts that are inspected\<close>

text \<open>
  The text of an error is searched and lower-cased, so it is modelled as what a JavaScript
  string is: the list of its UTF-16 code units, each a number below 65536. A string
  literal of the source consists of ASCII characters, one code unit each.
\<close>

type_synonym utf16 = "nat list"

definition lit :: "string \<Rightarrow> utf16" where
  "lit s = map of_char s"

text \<open>\<^verbatim>\<open>s.startsWith(pat)\<close> and \<^verbatim>\<open>s.includes(pat)\<close>: some suffix of \<open>s\<close> starts with \<open>pat\<close>.\<close>

fun startsWith :: "'a list \<Rightarrow> 'a list \<Rightarrow> bool" where
  "startsWith s [] = True"
| "startsWith [] (p # ps) = False"
| "startsWith (c # cs) (p # ps) = (c = p \<and> startsWith cs ps)"

fun includesStr :: "'a list \<Rightarrow> 'a list \<Rightarrow> bool" where
  "includesStr [] pat = (pat = [])"
| "includesStr (c # cs) pat = (startsWith (c # cs) pat \<or> includesStr cs pat)"

section \<open>Error classification (lib/utils.ts)\<close>

text \<open>
  The character class \<^verbatim>\<open>[\w\/.-]\<close> of the regular expression in
  \<^verbatim>\<open>getFriendlyErrorMessage\<close>: the code units of the ASCII letters, digits, underscore,
  slash, dot and hyphen.
\<close>

definition mimeChar :: "nat \<Rightarrow> bool" where
  "mimeChar n =
     ((65 \<le> n \<and> n \<le> 90) \<or> (97 \<le> n \<and> n \<le> 122) \<or> (48 \<le> n \<and> n \<le> 57)
      \<or> n = 95 \<or> n = 47 \<or> n = 46 \<or> n = 45)"

definition mimePrefix :: utf16 where
  "mimePrefix = lit ''Unsupported MIME type: ''"

text \<open>
  \<^verbatim>\<open>rawMessage.match(/Unsupported MIME type: ([\w\/.-]+)/)\<close>, reduced to its first
  capture group: the leftmost position where the literal is followed by at least one
  character of the class, and the longest run of such characters there.
\<close>

fun mimeMatch :: "utf16 \<Rightarrow> utf16 option" where
  "mimeMatch [] = None"
| "mimeMatch (c # cs) =
     (if startsWith (c # cs) mimePrefix
         \<and> takeWhile mimeChar (drop (length mimePrefix) (c # cs)) \<noteq> []
      then Some (takeWhile mimeChar (drop (length mimePrefix) (c # cs)))
      else mimeMatch cs)"

text \<open>
  The argument \<^verbatim>\<open>error: unknown\<close>: an \<^verbatim>\<open>Error\<close> object with its message, a
  string, any other truthy value with its \<^verbatim>\<open>String(error)\<close> rendering, or a falsy
  value that is not a string.
\<close>

datatype thrown = ErrorObject utf16 | StringValue utf16 | OtherTruthy utf16 | OtherFalsy

fun rawMessageOf :: "thrown \<Rightarrow> utf16" where
  "rawMessageOf (ErrorObject m) = m"
| "rawMessageOf (StringValue s) = s"
| "rawMessageOf (OtherTruthy r) = r"
| "rawMessageOf OtherFalsy = lit ''An unknown error occurred.''"

text \<open>
  \<^verbatim>\<open>String.prototype.toLowerCase\<close> is a built-in of the JavaScript engine, defined by
  the case mappings of the Unicode version the engine carries. It is not part of the
  repository, so \<^verbatim>\<open>getFriendlyErrorMessage\<close> takes it as its first argument
  \<open>toLowerCase\<close>; everything proved holds for whatever function the engine supplies.
\<close>

definition getFriendlyErrorMessage :: "(utf16 \<Rightarrow> utf16) \<Rightarrow> thrown \<Rightarrow> utf16 \<Rightarrow> utf16" where
  "getFriendlyErrorMessage toLowerCase err context =
     (let rawMessage = rawMessageOf err;
          lowerCaseMessage = toLowerCase rawMessage
      in if includesStr lowerCaseMessage (lit ''quota'')
            \<or> includesStr lowerCaseMessage (lit ''rate limit'')
            \<or> includesStr lowerCaseMessage (lit ''429'')
         then lit ''We're experiencing high demand right now. Please wait a moment and try again.''
         else if includesStr lowerCaseMessage (lit ''unsupported mime type'')
         then (let mimeType = (case mimeMatch rawMessage of
                                 Some m \<Rightarrow> lit [CHR 0x27] @ m @ lit [CHR 0x27]
                               | None \<Rightarrow> lit ''this file type'')
               in lit ''Sorry, '' @ mimeType @
                  lit '' is not supported. Please upload a standard image format like PNG, JPEG, or WEBP.'')
         else if includesStr lowerCaseMessage (lit ''blocked'')
                 \<or> includesStr lowerCaseMessage (lit ''safety'')
         then lit ''Your request was blocked for safety reasons. This can happen with certain images or prompts. Please try a different image.''
         else if includesStr lowerCaseMessage (lit ''model did not return an image'')
         then lit ''The AI couldn't create an image for this request. It might be too complex or unusual. Please try a different image or garment.''
         else lit ''An unexpected error occurred while trying to '' @ toLowerCase context @
              lit ''. Please try again. If the problem continues, there might be a temporary issue with the service.'')"

section \<open>Application state and derived views (App.tsx)\<close>

definition POSE_INSTRUCTIONS :: "string list" where
  "POSE_INSTRUCTIONS =
     [''Full frontal view, hands on hips'',
      ''Slightly turned, 3/4 view'',
      ''Side profile view'',
      ''Jumping in the air, mid-action shot'',
      ''Walking towards camera'',
      ''Leaning against a wall'']"

text \<open>
  A pose instruction read from the list is \<^verbatim>\<open>undefined\<close> outside the list; used as a
  property key, \<^verbatim>\<open>undefined\<close> is the key \<^verbatim>\<open>"undefined"\<close>.
\<close>

fun propKey :: "string option \<Rightarrow> string" where
  "propKey (Some k) = k"
| "propKey None = ''undefined''"

text \<open>
  The state hooks of \<^verbatim>\<open>App\<close> that the try-on handlers read or write. Page
  routing, modal visibility, sharing and the wishlist are separate hooks that none of
  these handlers touches.
\<close>

record AppState =
  modelImageUrl :: "string option"
  outfitHistory :: "OutfitLayer list"
  currentOutfitIndex :: int
  isLoading :: bool
  loadingMessage :: string
  error :: "utf16 option"
  currentPoseIndex :: int
  wardrobe :: "WardrobeItem list"

text \<open>
  \<^verbatim>\<open>activeOutfitLayers\<close> and \<^verbatim>\<open>activeGarmentIds\<close>; \<^verbatim>\<open>filter(Boolean)\<close> drops the
  missing id of the base layer and an empty id.
\<close>

definition activeOutfitLayers :: "AppState \<Rightarrow> OutfitLayer list" where
  "activeOutfitLayers s = slice0 (outfitHistory s) (currentOutfitIndex s + 1)"

definition activeGarmentIds :: "AppState \<Rightarrow> string list" where
  "activeGarmentIds s =
     concat (map (\<lambda>layer. case garment layer of
                               None \<Rightarrow> []
                             | Some g \<Rightarrow> if item_id g = [] then [] else [item_id g])
               (activeOutfitLayers s))"

definition displayImageUrl :: "AppState \<Rightarrow> string option" where
  "displayImageUrl s =
     (if length (outfitHistory s) = 0 then modelImageUrl s
      else case arrGet (outfitHistory s) (currentOutfitIndex s) of
        None \<Rightarrow> modelImageUrl s
      | Some currentLayer \<Rightarrow>
          (let poseInstruction = arrGet POSE_INSTRUCTIONS (currentPoseIndex s);
               poseImage = objGet (poseImages currentLayer) (propKey poseInstruction);
               poseKeys = objKeys (poseImages currentLayer);
               fallbackPose = (if length poseKeys > 0
                               then objGet (poseImages currentLayer) (poseKeys ! 0)
                               else None)
           in nullish (Option.bind poseImage enhanced)
                (nullish (map_option standard poseImage)
                   (nullish (map_option standard fallbackPose) (modelImageUrl s)))))"

section \<open>Model creation\<close>

text \<open>
  \<^verbatim>\<open>handleModelFinalized\<close>, without its analytics event and modal flag. It writes
  neither the pose index nor the loading flag.
\<close>

definition handleModelFinalized :: "AppState \<Rightarrow> string \<Rightarrow> AppState" where
  "handleModelFinalized s url =
     s\<lparr>modelImageUrl := Some url,
       outfitHistory :=
         [\<lparr>garment = None,
           poseImages = [(propKey (arrGet POSE_INSTRUCTIONS 0), \<lparr>standard = url, enhanced = None\<rparr>)]\<rparr>],
       currentOutfitIndex := 0\<rparr>"

section \<open>The try-on handlers\<close>

text \<open>
  An asynchronous handler runs synchronously up to its \<^verbatim>\<open>await\<close>; there it leaves
  a pending continuation that holds the values its closure captured (the image sent to
  the remote service, the layer index, the pose instruction). The continuation runs when
  the remote call settles, on the state of that moment: its state setters are functional
  updates (\<^verbatim>\<open>setOutfitHistory(prev => ...)\<close>), while the captured values are those of
  the call.
\<close>

datatype pending =
    PendingGarmentSelect string File WardrobeItem int int
  | PendingPoseSelect string "string option" int int
  | PendingEnhance string "string option" int

text \<open>The remote call settles with an image URL or throws; \<open>RemoteFail\<close> carries \<^verbatim>\<open>String(err)\<close>.\<close>

datatype remote_result = RemoteOk string | RemoteFail utf16

text \<open>Reading a property of \<^verbatim>\<open>undefined\<close> throws.\<close>

datatype js_exception = TypeError

definition finallyIdle :: "AppState \<Rightarrow> AppState" where
  "finallyIdle s = s\<lparr>isLoading := False, loadingMessage := []\<rparr>"

definition addToWardrobe :: "WardrobeItem list \<Rightarrow> WardrobeItem \<Rightarrow> WardrobeItem list" where
  "addToWardrobe prev garmentInfo =
     (case find (\<lambda>item. item_id item = item_id garmentInfo) prev of
        Some _ \<Rightarrow> prev
      | None \<Rightarrow> prev @ [garmentInfo])"

definition handleGarmentSelect ::
  "AppState \<Rightarrow> File \<Rightarrow> WardrobeItem \<Rightarrow> AppState \<times> pending option" where
  "handleGarmentSelect s garmentFile garmentInfo =
     (case displayImageUrl s of
        None \<Rightarrow> (s, None)
      | Some img \<Rightarrow>
          if img = [] \<or> isLoading s then (s, None)
          else
            let nextLayer = arrGet (outfitHistory s) (currentOutfitIndex s + 1)
            in if (case nextLayer of
                     None \<Rightarrow> False
                   | Some l \<Rightarrow> map_option item_id (garment l) = Some (item_id garmentInfo))
               then (s\<lparr>currentOutfitIndex := currentOutfitIndex s + 1, currentPoseIndex := 0\<rparr>, None)
               else (s\<lparr>error := None, isLoading := True,
                        loadingMessage := ''Adding '' @ item_name garmentInfo @ ''...''\<rparr>,
                     Some (PendingGarmentSelect img garmentFile garmentInfo
                             (currentPoseIndex s) (currentOutfitIndex s))))"

text \<open>
  \<^verbatim>\<open>handleGarmentSelect\<close> is a \<^verbatim>\<open>useCallback\<close> closure: it reads the state of the render
  that created it. \<^verbatim>\<open>WardrobePanel.handleGarmentClick\<close> awaits \<^verbatim>\<open>urlToFile\<close> before it
  calls the closure it was rendered with, so the closure may run when the state has moved
  on. \<open>handleGarmentSelectFrom c s\<close> is the handler of the render with state \<open>c\<close> running
  when the state is \<open>s\<close>: every read goes to \<open>c\<close>, every state setter acts on \<open>s\<close>
  (\<^verbatim>\<open>setCurrentOutfitIndex(prev => prev + 1)\<close> on the cursor of \<open>s\<close>). With \<open>c = s\<close> it is
  \<open>handleGarmentSelect s\<close>.
\<close>

definition handleGarmentSelectFrom ::
  "AppState \<Rightarrow> AppState \<Rightarrow> File \<Rightarrow> WardrobeItem \<Rightarrow> AppState \<times> pending option" where
  "handleGarmentSelectFrom c s garmentFile garmentInfo =
     (case displayImageUrl c of
        None \<Rightarrow> (s, None)
      | Some img \<Rightarrow>
          if img = [] \<or> isLoading c then (s, None)
          else
            let nextLayer = arrGet (outfitHistory c) (currentOutfitIndex c + 1)
            in if (case nextLayer of
                     None \<Rightarrow> False
                   | Some l \<Rightarrow> map_option item_id (garment l) = Some (item_id garmentInfo))
               then (s\<lparr>currentOutfitIndex := currentOutfitIndex s + 1, currentPoseIndex := 0\<rparr>, None)
               else (s\<lparr>error := None, isLoading := True,
                        loadingMessage := ''Adding '' @ item_name garmentInfo @ ''...''\<rparr>,
                     Some (PendingGarmentSelect img garmentFile garmentInfo
                             (currentPoseIndex c) (currentOutfitIndex c))))"

definition newGarmentLayer :: "WardrobeItem \<Rightarrow> int \<Rightarrow> string \<Rightarrow> OutfitLayer" where
  "newGarmentLayer garmentInfo poseIndex newImageUrl =
     \<lparr>garment = Some garmentInfo,
      poseImages = [(propKey (arrGet POSE_INSTRUCTIONS poseIndex),
                     \<lparr>standard = newImageUrl, enhanced = None\<rparr>)]\<rparr>"

definition handleRemoveLastGarment :: "AppState \<Rightarrow> js_exception + AppState" where
  "handleRemoveLastGarment s =
     (if currentOutfitIndex s > 0 then
        (case arrGet (outfitHistory s) (currentOutfitIndex s) of
           None \<Rightarrow> Inl TypeError
         | Some _ \<Rightarrow> Inr (s\<lparr>currentOutfitIndex := currentOutfitIndex s - 1, currentPoseIndex := 0\<rparr>))
      else Inr s)"

definition handlePoseSelect ::
  "AppState \<Rightarrow> int \<Rightarrow> js_exception + AppState \<times> pending option" where
  "handlePoseSelect s newIndex =
     (if isLoading s \<or> length (outfitHistory s) = 0 \<or> newIndex = currentPoseIndex s
      then Inr (s, None)
      else
        let poseInstruction = arrGet POSE_INSTRUCTIONS newIndex
        in case arrGet (outfitHistory s) (currentOutfitIndex s) of
          None \<Rightarrow> Inl TypeError
        | Some currentLayer \<Rightarrow>
            if truthy (map_option standard (objGet (poseImages currentLayer) (propKey poseInstruction)))
            then Inr (s\<lparr>currentPoseIndex := newIndex\<rparr>, None)
            else
              (case displayImageUrl s of
                 None \<Rightarrow> Inr (s, None)
               | Some baseImageForPoseChange \<Rightarrow>
                   if baseImageForPoseChange = [] then Inr (s, None)
                   else Inr (s\<lparr>error := None, isLoading := True,
                                loadingMessage := ''Changing pose...'',
                                currentPoseIndex := newIndex\<rparr>,
                             Some (PendingPoseSelect baseImageForPoseChange poseInstruction
                                     (currentOutfitIndex s) (currentPoseIndex s)))))"

definition handleEnhanceImage :: "AppState \<Rightarrow> js_exception + AppState \<times> pending option" where
  "handleEnhanceImage s =
     (case displayImageUrl s of
        None \<Rightarrow> Inr (s, None)
      | Some img \<Rightarrow>
          if img = [] \<or> isLoading s then Inr (s, None)
          else
            let poseInstruction = arrGet POSE_INSTRUCTIONS (currentPoseIndex s)
            in (case arrGet (outfitHistory s) (currentOutfitIndex s) of
                  None \<Rightarrow> Inl TypeError
                | Some currentLayer \<Rightarrow>
                    if truthy (Option.bind
                                 (objGet (poseImages currentLayer) (propKey poseInstruction))
                                 enhanced)
                    then Inr (s, None)
                    else Inr (s\<lparr>error := None, isLoading := True,
                                 loadingMessage := ''Enhancing image quality...''\<rparr>,
                              Some (PendingEnhance img poseInstruction (currentOutfitIndex s)))))"

text \<open>
  The part of each handler after its \<^verbatim>\<open>await\<close>: the \<^verbatim>\<open>try\<close> body on success, the
  \<^verbatim>\<open>catch\<close> block on failure, and the \<^verbatim>\<open>finally\<close> block in both cases. The first
  argument is the engine's \<^verbatim>\<open>toLowerCase\<close>, which the \<^verbatim>\<open>catch\<close> blocks reach through
  \<^verbatim>\<open>getFriendlyErrorMessage\<close>.
\<close>

fun resume :: "(utf16 \<Rightarrow> utf16) \<Rightarrow> pending \<Rightarrow> remote_result \<Rightarrow> AppState \<Rightarrow> AppState" where
  "resume toLowerCase (PendingGarmentSelect img garmentFile garmentInfo poseIndex outfitIndex) (RemoteOk newImageUrl) s =
     finallyIdle
       (s\<lparr>outfitHistory :=
             slice0 (outfitHistory s) (outfitIndex + 1) @ [newGarmentLayer garmentInfo poseIndex newImageUrl],
           currentOutfitIndex := currentOutfitIndex s + 1,
           wardrobe := addToWardrobe (wardrobe s) garmentInfo\<rparr>)"
| "resume toLowerCase (PendingGarmentSelect img garmentFile garmentInfo poseIndex outfitIndex) (RemoteFail err) s =
     finallyIdle
       (s\<lparr>error := Some (getFriendlyErrorMessage toLowerCase (StringValue err)
                           (lit ''Failed to apply garment''))\<rparr>)"
| "resume toLowerCase (PendingPoseSelect img poseInstruction outfitIndex prevPoseIndex) (RemoteOk newImageUrl) s =
     finallyIdle
       (s\<lparr>outfitHistory :=
             mapIndexed (\<lambda>index layer.
                 if int index \<noteq> outfitIndex then layer
                 else layer\<lparr>poseImages :=
                        objSet (poseImages layer) (propKey poseInstruction)
                          \<lparr>standard = newImageUrl, enhanced = None\<rparr>\<rparr>)
               (outfitHistory s)\<rparr>)"
| "resume toLowerCase (PendingPoseSelect img poseInstruction outfitIndex prevPoseIndex) (RemoteFail err) s =
     finallyIdle
       (s\<lparr>error := Some (getFriendlyErrorMessage toLowerCase (StringValue err)
                           (lit ''Failed to change pose'')),
           currentPoseIndex := prevPoseIndex\<rparr>)"
| "resume toLowerCase (PendingEnhance img poseInstruction outfitIndex) (RemoteOk enhancedImageUrl) s =
     finallyIdle
       (s\<lparr>outfitHistory :=
             mapIndexed (\<lambda>index layer.
                 if int index \<noteq> outfitIndex then layer
                 else (case objGet (poseImages layer) (propKey poseInstruction) of
                         None \<Rightarrow> layer
                       | Some poseToUpdate \<Rightarrow>
                           layer\<lparr>poseImages :=
                             objSet (poseImages layer) (propKey poseInstruction)
                               (poseToUpdate\<lparr>enhanced := Some enhancedImageUrl\<rparr>)\<rparr>))
               (outfitHistory s)\<rparr>)"
| "resume toLowerCase (PendingEnhance img poseInstruction outfitIndex) (RemoteFail err) s =
     finallyIdle
       (s\<lparr>error := Some (getFriendlyErrorMessage toLowerCase (StringValue err)
                           (lit ''Failed to enhance image''))\<rparr>)"

section \<open>The wardrobe panel and the wardrobe fetch\<close>

text \<open>
  \<^verbatim>\<open>WardrobePanel.handleGarmentClick\<close> up to its \<^verbatim>\<open>await urlToFile(...)\<close>: it goes on
  unless the panel was rendered busy or the garment is already part of the active outfit.
\<close>

definition handleGarmentClick :: "AppState \<Rightarrow> WardrobeItem \<Rightarrow> bool" where
  "handleGarmentClick s item = (\<not> (isLoading s \<or> item_id item \<in> set (activeGarmentIds s)))"

text \<open>
  \<^verbatim>\<open>fetchWardrobe\<close>, started when the application mounts, settles at some later time: it
  stores the fetched items, or the error text of its \<^verbatim>\<open>catch\<close> block.
\<close>

definition wardrobeFetched :: "AppState \<Rightarrow> WardrobeItem list \<Rightarrow> AppState" where
  "wardrobeFetched s items = s\<lparr>wardrobe := items\<rparr>"

definition wardrobeFetchFailed :: "AppState \<Rightarrow> AppState" where
  "wardrobeFetchFailed s =
     s\<lparr>error := Some (lit ''Could not load wardrobe items from the database.'')\<rparr>"

section \<open>The dressing screen as a transition system\<close>

text \<open>
  Between the creation of the model and a start-over the state is driven by these events:
  \<^item> a click on a wardrobe item, which leaves a waiting click that holds the state of the
    render it was made in;
  \<^item> the file of a waiting click arriving (the stored closure of \<^verbatim>\<open>handleGarmentSelect\<close>
    runs on the state of that moment) or failing to arrive (only the panel's own error
    text changes);
  \<^item> a call of one of the four handlers from the latest render: the custom upload calls
    \<^verbatim>\<open>handleGarmentSelect\<close> at once, the canvas and the outfit stack call the other three;
  \<^item> the settlement of an outstanding remote call, in any order;
  \<^item> the settlement of the wardrobe fetch.
  A configuration is the state, the outstanding remote calls and the waiting clicks. A
  handler that throws leaves the state as it was, since each throws before its first state
  setter. What happens before and after the dressing screen is not part of this system:
  the creation of the model (\<^verbatim>\<open>handleFileSelectForTryOn\<close>, which ends in
  \<^verbatim>\<open>handleModelFinalized\<close> or, with a first garment, in \<^verbatim>\<open>handleInitialTryOnFinalized\<close>)
  and \<^verbatim>\<open>handleStartOver\<close>.
\<close>

datatype event =
    WardrobeClick WardrobeItem
  | ClickLoaded nat File
  | ClickFailed nat
  | GarmentSelect File WardrobeItem
  | RemoveLastGarment
  | PoseSelect int
  | EnhanceImage
  | Settle nat remote_result
  | WardrobeFetched "WardrobeItem list"
  | WardrobeFetchFailed

type_synonym config = "AppState \<times> pending list \<times> (AppState \<times> WardrobeItem) list"

fun optionToList :: "'a option \<Rightarrow> 'a list" where
  "optionToList None = []"
| "optionToList (Some x) = [x]"

definition removeNth :: "nat \<Rightarrow> 'a list \<Rightarrow> 'a list" where
  "removeNth n xs = take n xs @ drop (Suc n) xs"

fun step :: "(utf16 \<Rightarrow> utf16) \<Rightarrow> event \<Rightarrow> config \<Rightarrow> config" where
  "step toLowerCase (WardrobeClick item) (s, ps, cs) =
     (if handleGarmentClick s item then (s, ps, cs @ [(s, item)]) else (s, ps, cs))"
| "step toLowerCase (ClickLoaded n garmentFile) (s, ps, cs) =
     (if n < length cs
      then (case handleGarmentSelectFrom (fst (cs ! n)) s garmentFile (snd (cs ! n)) of
              (s', p) \<Rightarrow> (s', ps @ optionToList p, removeNth n cs))
      else (s, ps, cs))"
| "step toLowerCase (ClickFailed n) (s, ps, cs) = (s, ps, removeNth n cs)"
| "step toLowerCase (GarmentSelect garmentFile garmentInfo) (s, ps, cs) =
     (case handleGarmentSelect s garmentFile garmentInfo of
        (s', p) \<Rightarrow> (s', ps @ optionToList p, cs))"
| "step toLowerCase RemoveLastGarment (s, ps, cs) =
     (case handleRemoveLastGarment s of Inl _ \<Rightarrow> (s, ps, cs) | Inr s' \<Rightarrow> (s', ps, cs))"
| "step toLowerCase (PoseSelect newIndex) (s, ps, cs) =
     (case handlePoseSelect s newIndex of
        Inl _ \<Rightarrow> (s, ps, cs)
      | Inr (s', p) \<Rightarrow> (s', ps @ optionToList p, cs))"
| "step toLowerCase EnhanceImage (s, ps, cs) =
     (case handleEnhanceImage s of
        Inl _ \<Rightarrow> (s, ps, cs)
      | Inr (s', p) \<Rightarrow> (s', ps @ optionToList p, cs))"
| "step toLowerCase (Settle n r) (s, ps, cs) =
     (if n < length ps then (resume toLowerCase (ps ! n) r s, removeNth n ps, cs) else (s, ps, cs))"
| "step toLowerCase (WardrobeFetched items) (s, ps, cs) = (wardrobeFetched s items, ps, cs)"
| "step toLowerCase WardrobeFetchFailed (s, ps, cs) = (wardrobeFetchFailed s, ps, cs)"

fun run :: "(utf16 \<Rightarrow> utf16) \<Rightarrow> event list \<Rightarrow> config \<Rightarrow> config" where
  "run toLowerCase [] c = c"
| "run toLowerCase (e # es) c = run toLowerCase es (step toLowerCase e c)"

text \<open>
  A freshly reset timeline: the model image has just been finalized, no call is outstanding
  and no click is waiting.
\<close>

definition freshTimeline :: "AppState \<Rightarrow> string \<Rightarrow> config" where
  "freshTimeline s0 url = (handleModelFinalized s0 url, [], [])"

section \<open>Specification-level notions\<close>

subsection \<open>Error taxonomy\<close>

text \<open>
  A message contains a pattern, ignoring case, when the pattern (given in lower case) is a
  substring of the lower-cased message.
\<close>

definition containsIgnoringCase :: "(utf16 \<Rightarrow> utf16) \<Rightarrow> utf16 \<Rightarrow> string \<Rightarrow> bool" where
  "containsIgnoringCase toLowerCase msg pat =
     (\<exists>before after. toLowerCase msg = before @ lit pat @ after)"

text \<open>
  A message names the MIME type \<open>m\<close>: at the first place where the words
  \<^verbatim>\<open>Unsupported MIME type: \<close> (in exactly this spelling) are followed by a letter, digit,
  underscore, slash, dot or hyphen, \<open>m\<close> is the longest run of such characters.
\<close>

definition namesMimeType :: "utf16 \<Rightarrow> utf16 \<Rightarrow> bool" where
  "namesMimeType msg m =
     (\<exists>before after.
        msg = before @ lit ''Unsupported MIME type: '' @ m @ after
        \<and> m \<noteq> [] \<and> list_all mimeChar m
        \<and> (case after of [] \<Rightarrow> True | c # rest \<Rightarrow> \<not> mimeChar c)
        \<and> \<not> (\<exists>before' c after'.
               msg = before' @ lit ''Unsupported MIME type: '' @ c # after'
               \<and> mimeChar c \<and> length before' < length before))"

subsection \<open>Enhanced entries\<close>

text \<open>\<^verbatim>\<open>history[i].poseImages[k]?.enhanced\<close>, absent when there is no such layer or entry.\<close>

definition enhancedAt :: "OutfitLayer list \<Rightarrow> nat \<Rightarrow> string \<Rightarrow> string option" where
  "enhancedAt h i k =
     (if i < length h then Option.bind (objGet (poseImages (h ! i)) k) enhanced else None)"

section \<open>Example values\<close>

text \<open>
  What \<^verbatim>\<open>toLowerCase\<close> does to a string of ASCII characters; it stands in for the
  engine's function where an example needs a concrete one.
\<close>

definition asciiToLowerCase :: "utf16 \<Rightarrow> utf16" where
  "asciiToLowerCase s = map (\<lambda>c. if 65 \<le> c \<and> c \<le> 90 then c + 32 else c) s"

definition exShirt :: WardrobeItem where
  "exShirt = \<lparr>item_id = ''shirt-1'', item_name = ''Shirt'', image_urls = [''shirt.png'']\<rparr>"

definition exHat :: WardrobeItem where
  "exHat = \<lparr>item_id = ''hat-2'', item_name = ''Hat'', image_urls = [''hat.png'']\<rparr>"

definition exCoat :: WardrobeItem where
  "exCoat = \<lparr>item_id = ''coat-3'', item_name = ''Coat'', image_urls = [''coat.png'']\<rparr>"

definition exBase :: OutfitLayer where
  "exBase =
     \<lparr>garment = None,
      poseImages = [(''Full frontal view, hands on hips'',
                     \<lparr>standard = ''model.png'', enhanced = None\<rparr>)]\<rparr>"

definition exLayerA :: OutfitLayer where
  "exLayerA =
     \<lparr>garment = Some exShirt,
      poseImages = [(''Full frontal view, hands on hips'',
                     \<lparr>standard = ''shirt_on_model.png'', enhanced = None\<rparr>),
                    (''Side profile view'',
                     \<lparr>standard = ''shirt_side.png'', enhanced = None\<rparr>)]\<rparr>"

definition exLayerB :: OutfitLayer where
  "exLayerB =
     \<lparr>garment = Some exHat,
      poseImages = [(''Side profile view'', \<lparr>standard = ''hat_side.png'', enhanced = None\<rparr>)]\<rparr>"

text \<open>
  The history \<open>[base, A, B]\<close> with the cursor on \<open>A\<close>: the shirt was applied, the side
  profile was generated for it, the hat was tried on in that pose and removed again.
\<close>

definition exState :: AppState where
  "exState =
     \<lparr>modelImageUrl = Some ''model.png'', outfitHistory = [exBase, exLayerA, exLayerB],
      currentOutfitIndex = 1, isLoading = False, loadingMessage = [], error = None,
      currentPoseIndex = 0, wardrobe = [exShirt, exHat]\<rparr>"

text \<open>The state \<open>exState\<close> while the pose at index 1 is being generated for the shirt layer.\<close>

definition exBusy :: AppState where
  "exBusy = exState\<lparr>isLoading := True, loadingMessage := ''Changing pose...'', currentPoseIndex := 1\<rparr>"

text \<open>The initial values of the state hooks.\<close>

definition exStart :: AppState where
  "exStart =
     \<lparr>modelImageUrl = None, outfitHistory = [], currentOutfitIndex = 0, isLoading = False,
      loadingMessage = [], error = None, currentPoseIndex = 0, wardrobe = []\<rparr>"

text \<open>The timeline right after the model image \<^verbatim>\<open>model.png\<close> was finalized.\<close>

definition exFresh :: AppState where
  "exFresh =
     \<lparr>modelImageUrl = Some ''model.png'', outfitHistory = [exBase], currentOutfitIndex = 0,
      isLoading = False, loadingMessage = [], error = None, currentPoseIndex = 0,
      wardrobe = []\<rparr>"

text \<open>
  A state in which the pose at index 1 of the base layer has been generated and enhanced
  while an earlier generation of the same pose for the same layer, \<open>exLatePose\<close>, is still
  outstanding.
\<close>

definition exEnhanced :: AppState where
  "exEnhanced =
     \<lparr>modelImageUrl = Some ''model.png'',
      outfitHistory =
        [\<lparr>garment = None,
          poseImages = [(''Full frontal view, hands on hips'',
                         \<lparr>standard = ''model.png'', enhanced = None\<rparr>),
                        (''Slightly turned, 3/4 view'',
                         \<lparr>standard = ''model_pose1.png'',
                          enhanced = Some ''model_pose1_hd.png''\<rparr>)]\<rparr>,
         \<lparr>garment = Some exShirt,
          poseImages = [(''Full frontal view, hands on hips'',
                         \<lparr>standard = ''shirt_on_model.png'', enhanced = None\<rparr>)]\<rparr>],
      currentOutfitIndex = 0, isLoading = False, loadingMessage = [], error = None,
      currentPoseIndex = 1, wardrobe = [exShirt]\<rparr>"

definition exLatePose :: pending where
  "exLatePose = PendingPoseSelect ''model.png'' (Some ''Slightly turned, 3/4 view'') 0 0"

section \<open>Basic facts about the primitives\<close>

lemma truthy_iff: "truthy x \<longleftrightarrow> (\<exists>img. x = Some img \<and> img \<noteq> [])"
  by (cases x) auto

lemma length_mapIndexed [simp]: "length (mapIndexed f xs) = length xs"
  by (simp add: mapIndexed_def)

lemma nth_mapIndexed [simp]: "i < length xs \<Longrightarrow> mapIndexed f xs ! i = f i (xs ! i)"
  by (simp add: mapIndexed_def)

lemma objGet_in_set: "objGet al k = Some p \<Longrightarrow> (k, p) \<in> set al"
  by (induction al k rule: objGet.induct) (auto split: if_splits)


lemma finallyIdle_fields [simp]:
  "outfitHistory (finallyIdle s) = outfitHistory s"
  "currentOutfitIndex (finallyIdle s) = currentOutfitIndex s"
  "currentPoseIndex (finallyIdle s) = currentPoseIndex s"
  "error (finallyIdle s) = error s"
  "modelImageUrl (finallyIdle s) = modelImageUrl s"
  "wardrobe (finallyIdle s) = wardrobe s"
  "isLoading (finallyIdle s) = False"
  by (simp_all add: finallyIdle_def)

subsection \<open>What the synchronous part of each handler can do\<close>

lemma handleGarmentSelect_cases:
  assumes "handleGarmentSelect s f g = (s', p)"
  obtains (noop) "s' = s" and "p = None"
  | (redo) l where "\<not> isLoading s" and "arrGet (outfitHistory s) (currentOutfitIndex s + 1) = Some l"
      and "map_option item_id (garment l) = Some (item_id g)"
      and "s' = s\<lparr>currentOutfitIndex := currentOutfitIndex s + 1, currentPoseIndex := 0\<rparr>" and "p = None"
  | (start) img where "\<not> isLoading s" and "displayImageUrl s = Some img" and "img \<noteq> []"
      and "s' = s\<lparr>error := None, isLoading := True, loadingMessage := ''Adding '' @ item_name g @ ''...''\<rparr>"
      and "p = Some (PendingGarmentSelect img f g (currentPoseIndex s) (currentOutfitIndex s))"
proof (cases "displayImageUrl s")
  case None
  with assms show ?thesis by (intro noop) (simp_all add: handleGarmentSelect_def)
next
  case (Some img)
  show ?thesis
  proof (cases "img = [] \<or> isLoading s")
    case True
    with assms Some show ?thesis by (intro noop) (auto simp add: handleGarmentSelect_def)
  next
    case False
    show ?thesis
    proof (cases "arrGet (outfitHistory s) (currentOutfitIndex s + 1)")
      case None
      with assms Some False show ?thesis
        by (intro start[of img]) (auto simp add: handleGarmentSelect_def)
    next
      case (Some l)
      show ?thesis
      proof (cases "map_option item_id (garment l) = Some (item_id g)")
        case True
        with assms \<open>displayImageUrl s = Some img\<close> False Some show ?thesis
          by (intro redo[of l]) (auto simp add: handleGarmentSelect_def)
      next
        case no: False
        with assms \<open>displayImageUrl s = Some img\<close> False Some show ?thesis
          by (intro start[of img]) (auto simp add: handleGarmentSelect_def split: if_splits)
      qed
    qed
  qed
qed

lemma handleGarmentSelectFrom_latest:
  "handleGarmentSelectFrom s s garmentFile garmentInfo = handleGarmentSelect s garmentFile garmentInfo"
  by (simp add: handleGarmentSelectFrom_def handleGarmentSelect_def)

lemma handleGarmentSelectFrom_cases:
  assumes "handleGarmentSelectFrom c s f g = (s', p)"
  obtains (noop) "s' = s" and "p = None"
  | (redo) "s' = s\<lparr>currentOutfitIndex := currentOutfitIndex s + 1, currentPoseIndex := 0\<rparr>"
      and "p = None"
  | (start) img where "\<not> isLoading c" and "displayImageUrl c = Some img" and "img \<noteq> []"
      and "s' = s\<lparr>error := None, isLoading := True, loadingMessage := ''Adding '' @ item_name g @ ''...''\<rparr>"
      and "p = Some (PendingGarmentSelect img f g (currentPoseIndex c) (currentOutfitIndex c))"
proof (cases "displayImageUrl c")
  case None
  with assms show ?thesis by (intro noop) (simp_all add: handleGarmentSelectFrom_def)
next
  case (Some img)
  show ?thesis
  proof (cases "img = [] \<or> isLoading c")
    case True
    with assms Some show ?thesis by (intro noop) (auto simp add: handleGarmentSelectFrom_def)
  next
    case False
    show ?thesis
    proof (cases "case arrGet (outfitHistory c) (currentOutfitIndex c + 1) of
                    None \<Rightarrow> False
                  | Some l \<Rightarrow> map_option item_id (garment l) = Some (item_id g)")
      case True
      with assms Some False show ?thesis
        by (intro redo) (simp_all add: handleGarmentSelectFrom_def)
    next
      case no: False
      with assms Some False show ?thesis
        by (intro start[of img]) (simp_all add: handleGarmentSelectFrom_def)
    qed
  qed
qed

lemma handleRemoveLastGarment_cases:
  assumes "handleRemoveLastGarment s = Inr s'"
  obtains (noop) "s' = s"
  | (dec) "currentOutfitIndex s > 0"
      and "s' = s\<lparr>currentOutfitIndex := currentOutfitIndex s - 1, currentPoseIndex := 0\<rparr>"
  using assms unfolding handleRemoveLastGarment_def
  by (auto split: option.splits if_splits)

lemma handlePoseSelect_cases:
  assumes "handlePoseSelect s n = Inr (s', p)"
  obtains (noop) "s' = s" and "p = None"
  | (hit) "s' = s\<lparr>currentPoseIndex := n\<rparr>" and "p = None"
  | (start) img l where "\<not> isLoading s" and "displayImageUrl s = Some img" and "img \<noteq> []"
      and "arrGet (outfitHistory s) (currentOutfitIndex s) = Some l"
      and "\<not> truthy (map_option standard (objGet (poseImages l) (propKey (arrGet POSE_INSTRUCTIONS n))))"
      and "s' = s\<lparr>error := None, isLoading := True, loadingMessage := ''Changing pose...'', currentPoseIndex := n\<rparr>"
      and "p = Some (PendingPoseSelect img (arrGet POSE_INSTRUCTIONS n) (currentOutfitIndex s) (currentPoseIndex s))"
proof (cases "isLoading s \<or> length (outfitHistory s) = 0 \<or> n = currentPoseIndex s")
  case True
  with assms show ?thesis by (intro noop) (auto simp add: handlePoseSelect_def)
next
  case False
  show ?thesis
  proof (cases "arrGet (outfitHistory s) (currentOutfitIndex s)")
    case None
    with assms False show ?thesis by (simp add: handlePoseSelect_def)
  next
    case (Some l)
    show ?thesis
    proof (cases "truthy (map_option standard (objGet (poseImages l) (propKey (arrGet POSE_INSTRUCTIONS n))))")
      case True
      with assms False Some show ?thesis by (intro hit) (auto simp add: handlePoseSelect_def)
    next
      case nohit: False
      show ?thesis
      proof (cases "displayImageUrl s")
        case None
        with assms False Some nohit show ?thesis by (intro noop) (auto simp add: handlePoseSelect_def)
      next
        case (Some img)
        show ?thesis
        proof (cases "img = []")
          case True
          with assms False \<open>arrGet (outfitHistory s) (currentOutfitIndex s) = Some l\<close> nohit Some
          show ?thesis by (intro noop) (auto simp add: handlePoseSelect_def)
        next
          case ne: False
          with assms False \<open>arrGet (outfitHistory s) (currentOutfitIndex s) = Some l\<close> nohit Some
          show ?thesis by (intro start[of img l]) (auto simp add: handlePoseSelect_def)
        qed
      qed
    qed
  qed
qed

lemma handleEnhanceImage_cases:
  assumes "handleEnhanceImage s = Inr (s', p)"
  obtains (noop) "s' = s" and "p = None"
  | (start) img l where "\<not> isLoading s" and "displayImageUrl s = Some img" and "img \<noteq> []"
      and "arrGet (outfitHistory s) (currentOutfitIndex s) = Some l"
      and "\<not> truthy (Option.bind (objGet (poseImages l) (propKey (arrGet POSE_INSTRUCTIONS (currentPoseIndex s)))) enhanced)"
      and "s' = s\<lparr>error := None, isLoading := True, loadingMessage := ''Enhancing image quality...''\<rparr>"
      and "p = Some (PendingEnhance img (arrGet POSE_INSTRUCTIONS (currentPoseIndex s)) (currentOutfitIndex s))"
proof (cases "displayImageUrl s")
  case None
  with assms show ?thesis by (intro noop) (simp_all add: handleEnhanceImage_def)
next
  case (Some img)
  show ?thesis
  proof (cases "img = [] \<or> isLoading s")
    case True
    with assms Some show ?thesis by (intro noop) (auto simp add: handleEnhanceImage_def)
  next
    case False
    show ?thesis
    proof (cases "arrGet (outfitHistory s) (currentOutfitIndex s)")
      case None
      with assms Some False show ?thesis by (simp add: handleEnhanceImage_def)
    next
      case (Some l)
      show ?thesis
      proof (cases "truthy (Option.bind (objGet (poseImages l) (propKey (arrGet POSE_INSTRUCTIONS (currentPoseIndex s)))) enhanced)")
        case True
        with assms \<open>displayImageUrl s = Some img\<close> False Some show ?thesis
          by (intro noop) (auto simp add: handleEnhanceImage_def)
      next
        case no: False
        with assms \<open>displayImageUrl s = Some img\<close> False Some show ?thesis
          by (intro start[of img l]) (auto simp add: handleEnhanceImage_def)
      qed
    qed
  qed
qed

subsection \<open>Strings\<close>

lemma startsWith_iff: "startsWith s p \<longleftrightarrow> (\<exists>after. s = p @ after)"
  by (induction s p rule: startsWith.induct) auto

lemma includesStr_iff: "includesStr s p \<longleftrightarrow> (\<exists>before after. s = before @ p @ after)"
proof (induction s)
  case Nil
  then show ?case by simp
next
  case (Cons c cs)
  show ?case
  proof
    assume "includesStr (c # cs) p"
    then consider "startsWith (c # cs) p" | "includesStr cs p" by auto
    then show "\<exists>before after. c # cs = before @ p @ after"
    proof cases
      case 1
      then obtain after where "c # cs = p @ after" by (auto simp: startsWith_iff)
      then have "c # cs = [] @ p @ after" by simp
      then show ?thesis by blast
    next
      case 2
      with Cons obtain before after where "cs = before @ p @ after" by blast
      then have "c # cs = (c # before) @ p @ after" by simp
      then show ?thesis by blast
    qed
  next
    assume "\<exists>before after. c # cs = before @ p @ after"
    then obtain before after where d: "c # cs = before @ p @ after" by blast
    show "includesStr (c # cs) p"
    proof (cases before)
      case Nil
      with d have "startsWith (c # cs) p" by (auto simp: startsWith_iff)
      then show ?thesis by simp
    next
      case (Cons b bs)
      with d have "cs = bs @ p @ after" by simp
      with Cons.IH have "includesStr cs p" by blast
      then show ?thesis by simp
    qed
  qed
qed

lemma contains_iff:
  "containsIgnoringCase toLowerCase msg pat \<longleftrightarrow> includesStr (toLowerCase msg) (lit pat)"
  by (simp add: containsIgnoringCase_def includesStr_iff)

lemma mimePrefix_length: "length mimePrefix = 23"
  by (simp add: mimePrefix_def lit_def)

lemma match_here_iff:
  "(startsWith s mimePrefix \<and> takeWhile mimeChar (drop (length mimePrefix) s) \<noteq> [])
     \<longleftrightarrow> (\<exists>c after. s = mimePrefix @ c # after \<and> mimeChar c)"
proof
  assume a: "startsWith s mimePrefix \<and> takeWhile mimeChar (drop (length mimePrefix) s) \<noteq> []"
  then obtain r where r: "s = mimePrefix @ r" by (auto simp: startsWith_iff)
  with a have "takeWhile mimeChar r \<noteq> []" by simp
  then obtain c after where "r = c # after" "mimeChar c"
    by (cases r) (auto split: if_splits)
  with r show "\<exists>c after. s = mimePrefix @ c # after \<and> mimeChar c" by blast
next
  assume "\<exists>c after. s = mimePrefix @ c # after \<and> mimeChar c"
  then obtain c after where d: "s = mimePrefix @ c # after" "mimeChar c" by blast
  then have "startsWith s mimePrefix" by (auto simp: startsWith_iff)
  moreover from d have "drop (length mimePrefix) s = c # after" by simp
  ultimately show "startsWith s mimePrefix \<and> takeWhile mimeChar (drop (length mimePrefix) s) \<noteq> []"
    using d(2) by simp
qed

text \<open>The first capture group of the regular expression is the MIME type the message names.\<close>

lemma mimeMatch_names: "mimeMatch msg = Some m \<Longrightarrow> namesMimeType msg m"
proof (induction msg)
  case Nil
  then show ?case by simp
next
  case (Cons x xs)
  let ?rest = "drop (length mimePrefix) (x # xs)"
  show ?case
  proof (cases "startsWith (x # xs) mimePrefix \<and> takeWhile mimeChar ?rest \<noteq> []")
    case True
    with Cons.prems have m: "m = takeWhile mimeChar ?rest" by simp
    from True obtain r where r: "x # xs = mimePrefix @ r" by (auto simp: startsWith_iff)
    then have rest: "?rest = r" by simp
    have split: "r = m @ dropWhile mimeChar r" using m rest by simp
    with r have d: "x # xs = [] @ mimePrefix @ m @ dropWhile mimeChar r" by simp
    have after: "case dropWhile mimeChar r of [] \<Rightarrow> True | c # rest \<Rightarrow> \<not> mimeChar c"
    proof (cases "dropWhile mimeChar r")
      case Nil
      show ?thesis unfolding Nil by simp
    next
      case (Cons c rest)
      with hd_dropWhile[of mimeChar r] have c: "\<not> mimeChar c" by simp
      show ?thesis unfolding Cons using c by simp
    qed
    have all: "list_all mimeChar m" using m by (auto simp: list_all_iff dest: set_takeWhileD)
    have ne: "m \<noteq> []" using True m by simp
    have first: "\<not> (\<exists>before' c after'. x # xs = before' @ mimePrefix @ c # after'
                    \<and> mimeChar c \<and> length before' < length ([] :: utf16))"
      by simp
    from d ne all after first show ?thesis
      unfolding namesMimeType_def mimePrefix_def[symmetric] by blast
  next
    case False
    with Cons.prems have "mimeMatch xs = Some m" by (simp split: if_splits)
    from Cons.IH[OF this] obtain before after where
      d: "xs = before @ mimePrefix @ m @ after" and ne: "m \<noteq> []" and all: "list_all mimeChar m"
      and after: "case after of [] \<Rightarrow> True | c # rest \<Rightarrow> \<not> mimeChar c"
      and first: "\<not> (\<exists>before' c after'. xs = before' @ mimePrefix @ c # after'
                      \<and> mimeChar c \<and> length before' < length before)"
      unfolding namesMimeType_def mimePrefix_def[symmetric] by blast
    from d have d': "x # xs = (x # before) @ mimePrefix @ m @ after" by simp
    have first': "\<not> (\<exists>before' c after'. x # xs = before' @ mimePrefix @ c # after'
                      \<and> mimeChar c \<and> length before' < length (x # before))"
    proof
      assume "\<exists>before' c after'. x # xs = before' @ mimePrefix @ c # after'
                      \<and> mimeChar c \<and> length before' < length (x # before)"
      then obtain before' c after' where
        e: "x # xs = before' @ mimePrefix @ c # after'" "mimeChar c"
           "length before' < length (x # before)"
        by blast
      show False
      proof (cases before')
        case Nil
        with e have "\<exists>c after. x # xs = mimePrefix @ c # after \<and> mimeChar c" by auto
        with False match_here_iff[of "x # xs"] show False by blast
      next
        case (Cons b bs)
        with e have "xs = bs @ mimePrefix @ c # after'" "length bs < length before" by simp_all
        with e(2) first show False by blast
      qed
    qed
    from d' ne all after first' show ?thesis
      unfolding namesMimeType_def mimePrefix_def[symmetric] by blast
  qed
qed

lemma names_mimeMatch: "namesMimeType msg m \<Longrightarrow> mimeMatch msg = Some m"
proof (induction msg)
  case Nil
  then show ?case by (simp add: namesMimeType_def lit_def)
next
  case (Cons x xs)
  from Cons.prems obtain before after where
    d: "x # xs = before @ mimePrefix @ m @ after" and ne: "m \<noteq> []" and all: "list_all mimeChar m"
    and after: "case after of [] \<Rightarrow> True | c # rest \<Rightarrow> \<not> mimeChar c"
    and first: "\<not> (\<exists>before' c after'. x # xs = before' @ mimePrefix @ c # after'
                    \<and> mimeChar c \<and> length before' < length before)"
    unfolding namesMimeType_def mimePrefix_def[symmetric] by blast
  let ?rest = "drop (length mimePrefix) (x # xs)"
  show ?case
  proof (cases before)
    case Nil
    with d have s: "x # xs = mimePrefix @ m @ after" by simp
    then have sw: "startsWith (x # xs) mimePrefix" by (auto simp: startsWith_iff)
    from s have "?rest = m @ after" by simp
    moreover have "takeWhile mimeChar (m @ after) = m"
    proof -
      have "takeWhile mimeChar (m @ after) = m @ takeWhile mimeChar after"
        using all by (intro takeWhile_append2) (simp add: list_all_iff)
      moreover have "takeWhile mimeChar after = []" using after by (cases after) simp_all
      ultimately show ?thesis by simp
    qed
    ultimately have "takeWhile mimeChar ?rest = m" by simp
    with sw ne show ?thesis by simp
  next
    case (Cons b bs)
    with d have xs: "xs = bs @ mimePrefix @ m @ after" by simp
    have "\<not> (\<exists>c after. x # xs = mimePrefix @ c # after \<and> mimeChar c)"
    proof
      assume "\<exists>c after. x # xs = mimePrefix @ c # after \<and> mimeChar c"
      then obtain c after' where "x # xs = [] @ mimePrefix @ c # after'" "mimeChar c" by auto
      moreover have "length ([] :: utf16) < length before" using Cons by simp
      ultimately show False using first by blast
    qed
    with match_here_iff[of "x # xs"]
    have "\<not> (startsWith (x # xs) mimePrefix \<and> takeWhile mimeChar ?rest \<noteq> [])"
      by blast
    then have skip: "mimeMatch (x # xs) = mimeMatch xs" by auto
    have first': "\<not> (\<exists>before' c after'. xs = before' @ mimePrefix @ c # after'
                      \<and> mimeChar c \<and> length before' < length bs)"
    proof
      assume "\<exists>before' c after'. xs = before' @ mimePrefix @ c # after'
                      \<and> mimeChar c \<and> length before' < length bs"
      then obtain before' c after' where
        "xs = before' @ mimePrefix @ c # after'" "mimeChar c" "length before' < length bs"
        by blast
      then have "x # xs = (x # before') @ mimePrefix @ c # after'"
        "length (x # before') < length before"
        using Cons by simp_all
      with \<open>mimeChar c\<close> first show False by blast
    qed
    from xs ne all after first' have "namesMimeType xs m"
      unfolding namesMimeType_def mimePrefix_def[symmetric] by blast
    from Cons.IH[OF this] skip show ?thesis by simp
  qed
qed

lemma mimeMatch_iff: "mimeMatch msg = Some m \<longleftrightarrow> namesMimeType msg m"
  using mimeMatch_names names_mimeMatch by blast

lemma mimeMatch_None_iff: "mimeMatch msg = None \<longleftrightarrow> (\<forall>m. \<not> namesMimeType msg m)"
proof (cases "mimeMatch msg")
  case None
  then show ?thesis using names_mimeMatch[of msg] by auto
next
  case (Some m)
  then show ?thesis using mimeMatch_names[of msg m] by auto
qed

section \<open>Evaluation of the examples\<close>

lemmas ex_defs =
  exShirt_def exHat_def exCoat_def exBase_def exLayerA_def exLayerB_def exState_def exBusy_def
  exStart_def exFresh_def exEnhanced_def exLatePose_def

lemmas eval_defs =
  freshTimeline_def handleModelFinalized_def handleGarmentSelect_def handleGarmentSelectFrom_def
  handleRemoveLastGarment_def handlePoseSelect_def handleEnhanceImage_def handleGarmentClick_def
  activeGarmentIds_def activeOutfitLayers_def wardrobeFetched_def wardrobeFetchFailed_def
  displayImageUrl_def arrGet_def slice0_def removeNth_def mapIndexed_def objKeys_def
  POSE_INSTRUCTIONS_def finallyIdle_def newGarmentLayer_def addToWardrobe_def enhancedAt_def

lemma exFresh_is_fresh: "freshTimeline exStart ''model.png'' = (exFresh, [], [])"
  by (simp add: eval_defs ex_defs)

lemma exState_reachable:
  "run toLowerCase
     [WardrobeClick exShirt, ClickLoaded 0 ''shirt.png'', Settle 0 (RemoteOk ''shirt_on_model.png''),
      PoseSelect 2, Settle 0 (RemoteOk ''shirt_side.png''),
      WardrobeClick exHat, ClickLoaded 0 ''hat.png'', Settle 0 (RemoteOk ''hat_side.png''),
      RemoveLastGarment]
     (freshTimeline exStart ''model.png'')
   = (exState, [], [])"
  by (simp add: eval_defs ex_defs)

lemma exState_display: "displayImageUrl exState = Some ''shirt_on_model.png''"
  by (simp add: eval_defs ex_defs)

lemma exState_tip_display:
  "displayImageUrl (exState\<lparr>currentOutfitIndex := 2\<rparr>) = Some ''hat_side.png''"
  by (simp add: eval_defs ex_defs)

text \<open>
  The end-to-end scenario of the specification: reset, apply a shirt, generate pose 1,
  remove the shirt again.
\<close>

lemma end_to_end_scenario:
  "(case run toLowerCase
           [GarmentSelect ''shirt.png'' exShirt, Settle 0 (RemoteOk ''shirt_on_model.png'')]
           (freshTimeline exStart ''model.png'') of
      (s, ps, cs) \<Rightarrow> length (outfitHistory s) = 2 \<and> currentOutfitIndex s = 1
                 \<and> displayImageUrl s = Some ''shirt_on_model.png'' \<and> ps = [])
   \<and> (case run toLowerCase
           [GarmentSelect ''shirt.png'' exShirt, Settle 0 (RemoteOk ''shirt_on_model.png''),
            PoseSelect 1, Settle 0 (RemoteOk ''shirt_on_model_pose1.png'')]
           (freshTimeline exStart ''model.png'') of
      (s, ps, cs) \<Rightarrow> displayImageUrl s = Some ''shirt_on_model_pose1.png'' \<and> currentPoseIndex s = 1)
   \<and> (case run toLowerCase
           [GarmentSelect ''shirt.png'' exShirt, Settle 0 (RemoteOk ''shirt_on_model.png''),
            PoseSelect 1, Settle 0 (RemoteOk ''shirt_on_model_pose1.png''), RemoveLastGarment]
           (freshTimeline exStart ''model.png'') of
      (s, ps, cs) \<Rightarrow> currentOutfitIndex s = 0 \<and> displayImageUrl s = Some ''model.png'')"
  by (simp add: eval_defs ex_defs)

section \<open>The display image\<close>

lemma displayImageUrl_layer:
  assumes "arrGet (outfitHistory s) (currentOutfitIndex s) = Some L"
  shows "displayImageUrl s =
           (case objGet (poseImages L) (propKey (arrGet POSE_INSTRUCTIONS (currentPoseIndex s))) of
              Some poseImage \<Rightarrow>
                (case enhanced poseImage of
                   Some e \<Rightarrow> Some e
                 | None \<Rightarrow> Some (standard poseImage))
            | None \<Rightarrow>
                (case poseImages L of
                   [] \<Rightarrow> modelImageUrl s
                 | (otherKey, other) # rest \<Rightarrow> Some (standard other)))"
proof -
  from assms have ne: "outfitHistory s \<noteq> []"
    by (auto simp: arrGet_def split: if_splits)
  show ?thesis
  proof (cases "objGet (poseImages L) (propKey (arrGet POSE_INSTRUCTIONS (currentPoseIndex s)))")
    case (Some poseImage)
    with assms ne show ?thesis
      by (cases "enhanced poseImage") (simp_all add: displayImageUrl_def)
  next
    case None
    show ?thesis
    proof (cases "poseImages L")
      case Nil
      with assms ne None show ?thesis by (simp add: displayImageUrl_def objKeys_def)
    next
      case (Cons kv rest)
      obtain otherKey other where kv: "kv = (otherKey, other)" by (cases kv)
      with assms ne None Cons show ?thesis by (simp add: displayImageUrl_def objKeys_def)
    qed
  qed
qed

text \<open>
  In a state of the data model of the specification (the current layer has at least one
  pose image, and image references are non-empty strings) there is a display image.
\<close>

lemma display_available:
  assumes L: "arrGet (outfitHistory s) (currentOutfitIndex s) = Some L"
    and ne: "poseImages L \<noteq> []"
    and refs: "list_all (\<lambda>(k, p). standard p \<noteq> [] \<and> enhanced p \<noteq> Some []) (poseImages L)"
  shows "truthy (displayImageUrl s)"
proof (cases "objGet (poseImages L) (propKey (arrGet POSE_INSTRUCTIONS (currentPoseIndex s)))")
  case (Some poseImage)
  then have "(propKey (arrGet POSE_INSTRUCTIONS (currentPoseIndex s)), poseImage) \<in> set (poseImages L)"
    by (rule objGet_in_set)
  with refs have "standard poseImage \<noteq> []" "enhanced poseImage \<noteq> Some []"
    by (auto simp: list_all_iff)
  with Some show ?thesis
    by (cases "enhanced poseImage") (simp_all add: displayImageUrl_layer[OF L])
next
  case None
  from ne obtain otherKey other rest where c: "poseImages L = (otherKey, other) # rest"
    by (cases "poseImages L") auto
  with refs have "standard other \<noteq> []" by simp
  with None c show ?thesis by (simp add: displayImageUrl_layer[OF L])
qed

section \<open>Claims\<close>

text \<open>
  C1 (busy exclusivity). While \<^verbatim>\<open>isLoading\<close> is true every entry point should leave the
  outfit history, the cursor and the pose index alone and issue no remote call. The three
  asynchronous handlers do so: each returns at once when \<^verbatim>\<open>isLoading\<close> is set.
\<close>

lemma busy_handlers_are_noops:
  assumes "isLoading s"
  shows "handleGarmentSelect s garmentFile garmentInfo = (s, None)"
    and "handlePoseSelect s newIndex = Inr (s, None)"
    and "handleEnhanceImage s = Inr (s, None)"
  using assms
  by (simp_all add: handleGarmentSelect_def handlePoseSelect_def handleEnhanceImage_def
        split: option.splits)

text \<open>
  C1, the failing input. \<^verbatim>\<open>handleRemoveLastGarment\<close> does not read \<^verbatim>\<open>isLoading\<close>.
  In \<open>exState\<close> (history \<open>[base, A, B]\<close>, cursor 1, pose index 0) the user selects the
  pose at index 1, which starts a remote call and leaves the busy state \<open>exBusy\<close>; a call
  of \<^verbatim>\<open>handleRemoveLastGarment\<close> in that state moves the cursor to 0 and the pose index
  back to 0.
\<close>

theorem removeLastGarment_while_busy:
  "handlePoseSelect exState 1
     = Inr (exBusy, Some (PendingPoseSelect ''shirt_on_model.png''
                            (Some ''Slightly turned, 3/4 view'') 1 0))
   \<and> isLoading exBusy \<and> currentOutfitIndex exBusy = 1 \<and> currentPoseIndex exBusy = 1
   \<and> handleRemoveLastGarment exBusy
       = Inr (exBusy\<lparr>currentOutfitIndex := 0, currentPoseIndex := 0\<rparr>)"
  by (simp add: eval_defs ex_defs)

text \<open>
  What the missing guard leads to: a garment is removed while the composition of the next
  one is in flight; when the call settles, the new layer is appended after the captured
  cursor, but the cursor is advanced from where the removal left it and does not point at
  the new layer.
\<close>

lemma removeLastGarment_during_composition:
  "(case run toLowerCase
           [GarmentSelect ''shirt.png'' exShirt, Settle 0 (RemoteOk ''shirt_on_model.png''),
            GarmentSelect ''hat.png'' exHat, RemoveLastGarment,
            Settle 0 (RemoteOk ''hat_on_shirt.png'')]
           (freshTimeline exStart ''model.png'') of
      (s, ps, cs) \<Rightarrow> length (outfitHistory s) = 3 \<and> currentOutfitIndex s = 1
                 \<and> displayImageUrl s = Some ''shirt_on_model.png'')"
  by (simp add: eval_defs ex_defs)

text \<open>
  C2 (optimistic pose rollback). In every state with a non-empty timeline that is not
  busy and shows an image, whose current layer has no usable standard image for a pose
  \<open>p\<close> other than the current one, \<^verbatim>\<open>handlePoseSelect p\<close> issues the remote call with
  the pose index already set to \<open>p\<close>. If the call fails, the pose index is back at its
  value before the call, the stored error is set, the loading flag is cleared and the
  outfit history and the cursor are as before, whatever the engine's \<^verbatim>\<open>toLowerCase\<close> is.
\<close>

theorem selectPose_optimistic_rollback:
  assumes "outfitHistory s \<noteq> []" and "\<not> isLoading s" and "p \<noteq> currentPoseIndex s"
    and "arrGet (outfitHistory s) (currentOutfitIndex s) = Some L"
    and "\<not> truthy (map_option standard
               (objGet (poseImages L) (propKey (arrGet POSE_INSTRUCTIONS p))))"
    and "truthy (displayImageUrl s)"
  shows "\<exists>s' pend. handlePoseSelect s p = Inr (s', Some pend)
          \<and> currentPoseIndex s' = p \<and> isLoading s' \<and> outfitHistory s' = outfitHistory s
          \<and> currentPoseIndex (resume toLowerCase pend (RemoteFail err) s') = currentPoseIndex s
          \<and> error (resume toLowerCase pend (RemoteFail err) s') \<noteq> None
          \<and> outfitHistory (resume toLowerCase pend (RemoteFail err) s') = outfitHistory s
          \<and> currentOutfitIndex (resume toLowerCase pend (RemoteFail err) s') = currentOutfitIndex s
          \<and> \<not> isLoading (resume toLowerCase pend (RemoteFail err) s')"
proof -
  from assms(6) obtain img where img: "displayImageUrl s = Some img" "img \<noteq> []"
    by (auto simp: truthy_iff)
  let ?s' = "s\<lparr>error := None, isLoading := True, loadingMessage := ''Changing pose...'',
                currentPoseIndex := p\<rparr>"
  let ?pend = "PendingPoseSelect img (arrGet POSE_INSTRUCTIONS p) (currentOutfitIndex s)
                 (currentPoseIndex s)"
  have "handlePoseSelect s p = Inr (?s', Some ?pend)"
    using assms(1-5) img by (simp add: handlePoseSelect_def Let_def)
  then show ?thesis by simp
qed

theorem selectPose_optimistic_rollback_witness:
  "outfitHistory exState \<noteq> [] \<and> \<not> isLoading exState \<and> 1 \<noteq> currentPoseIndex exState
   \<and> arrGet (outfitHistory exState) (currentOutfitIndex exState) = Some exLayerA
   \<and> \<not> truthy (map_option standard
             (objGet (poseImages exLayerA) (propKey (arrGet POSE_INSTRUCTIONS 1))))
   \<and> truthy (displayImageUrl exState)
   \<and> (\<exists>s' pend. handlePoseSelect exState 1 = Inr (s', Some pend)
          \<and> currentPoseIndex s' = 1 \<and> isLoading s' \<and> outfitHistory s' = outfitHistory exState
          \<and> currentPoseIndex (resume asciiToLowerCase pend (RemoteFail (lit ''503'')) s') = currentPoseIndex exState
          \<and> error (resume asciiToLowerCase pend (RemoteFail (lit ''503'')) s') \<noteq> None
          \<and> outfitHistory (resume asciiToLowerCase pend (RemoteFail (lit ''503'')) s') = outfitHistory exState
          \<and> currentOutfitIndex (resume asciiToLowerCase pend (RemoteFail (lit ''503'')) s') = currentOutfitIndex exState
          \<and> \<not> isLoading (resume asciiToLowerCase pend (RemoteFail (lit ''503'')) s'))"
proof -
  have h1: "outfitHistory exState \<noteq> []" by (simp add: ex_defs)
  have h2: "\<not> isLoading exState" by (simp add: ex_defs)
  have h3: "1 \<noteq> currentPoseIndex exState" by (simp add: ex_defs)
  have h4: "arrGet (outfitHistory exState) (currentOutfitIndex exState) = Some exLayerA"
    by (simp add: ex_defs arrGet_def)
  have h5: "\<not> truthy (map_option standard
                 (objGet (poseImages exLayerA) (propKey (arrGet POSE_INSTRUCTIONS 1))))"
    by (simp add: ex_defs arrGet_def POSE_INSTRUCTIONS_def)
  have h6: "truthy (displayImageUrl exState)" by (simp add: exState_display)
  from selectPose_optimistic_rollback[OF h1 h2 h3 h4 h5 h6, of asciiToLowerCase "lit ''503''"] h1 h2 h3 h4 h5 h6
  show ?thesis by blast
qed






text \<open>
  C5 (cursor invariant), the failing input. On the fresh timeline \<open>exFresh\<close> the user
  clicks two wardrobe items one after the other; both clicks pass the guard of
  \<^verbatim>\<open>handleGarmentClick\<close> and wait for their files. When the files arrive, each click calls
  the \<^verbatim>\<open>handleGarmentSelect\<close> closure of the render it was made in, which still reads
  \<^verbatim>\<open>isLoading = false\<close>, cursor 0 and the one-layer history: the second call is issued
  although the first is outstanding. When both calls succeed, each cuts the history after
  the captured cursor 0 and appends its layer, and each advances the cursor: the history
  has two layers and the cursor is 2, outside the history.
\<close>

theorem overlapping_compositions_break_cursor:
  "handleGarmentClick exFresh exShirt \<and> handleGarmentClick exFresh exHat
   \<and> handleGarmentSelectFrom exFresh exFresh ''shirt.png'' exShirt
       = (exFresh\<lparr>isLoading := True, loadingMessage := ''Adding Shirt...''\<rparr>,
          Some (PendingGarmentSelect ''model.png'' ''shirt.png'' exShirt 0 0))
   \<and> handleGarmentSelectFrom exFresh
         (exFresh\<lparr>isLoading := True, loadingMessage := ''Adding Shirt...''\<rparr>) ''hat.png'' exHat
       = (exFresh\<lparr>isLoading := True, loadingMessage := ''Adding Hat...''\<rparr>,
          Some (PendingGarmentSelect ''model.png'' ''hat.png'' exHat 0 0))
   \<and> outfitHistory
        (resume toLowerCase (PendingGarmentSelect ''model.png'' ''hat.png'' exHat 0 0)
           (RemoteOk ''hat_on_model.png'')
           (resume toLowerCase (PendingGarmentSelect ''model.png'' ''shirt.png'' exShirt 0 0)
              (RemoteOk ''shirt_on_model.png'')
              (exFresh\<lparr>isLoading := True, loadingMessage := ''Adding Hat...''\<rparr>)))
       = [exBase,
          \<lparr>garment = Some exHat,
           poseImages = [(''Full frontal view, hands on hips'',
                          \<lparr>standard = ''hat_on_model.png'', enhanced = None\<rparr>)]\<rparr>]
   \<and> currentOutfitIndex
        (resume toLowerCase (PendingGarmentSelect ''model.png'' ''hat.png'' exHat 0 0)
           (RemoteOk ''hat_on_model.png'')
           (resume toLowerCase (PendingGarmentSelect ''model.png'' ''shirt.png'' exShirt 0 0)
              (RemoteOk ''shirt_on_model.png'')
              (exFresh\<lparr>isLoading := True, loadingMessage := ''Adding Hat...''\<rparr>)))
       = 2"
  by (simp add: eval_defs ex_defs)

text \<open>The same as a run of events from the fresh timeline.\<close>

lemma overlapping_compositions_run:
  "(case run toLowerCase
           [WardrobeClick exShirt, WardrobeClick exHat,
            ClickLoaded 0 ''shirt.png'', ClickLoaded 0 ''hat.png'',
            Settle 0 (RemoteOk ''shirt_on_model.png''), Settle 0 (RemoteOk ''hat_on_model.png'')]
           (freshTimeline exStart ''model.png'') of
      (s, ps, cs) \<Rightarrow> length (outfitHistory s) = 2 \<and> currentOutfitIndex s = 2
                     \<and> arrGet (outfitHistory s) (currentOutfitIndex s) = None
                     \<and> ps = [] \<and> cs = [])"
  by (simp add: eval_defs ex_defs)

text \<open>
  C6 (pose fallback chain). For a non-empty history with current layer \<open>L\<close> and the key
  of the requested pose, the display image is the enhanced image of the pose if the layer
  has one, else the standard image of the pose if the layer has an entry for it, else the
  standard image of another pose of the layer (the first in insertion order) if the layer
  has any entry, else the base model image. In particular a layer with a single entry,
  for another pose, shows the standard image of that entry. The function is total: no
  branch throws.
\<close>

theorem display_fallback_chain:
  assumes "outfitHistory s \<noteq> []"
    and "arrGet (outfitHistory s) (currentOutfitIndex s) = Some L"
    and "key = propKey (arrGet POSE_INSTRUCTIONS (currentPoseIndex s))"
  shows "displayImageUrl s =
           (case objGet (poseImages L) key of
              Some poseImage \<Rightarrow>
                (case enhanced poseImage of
                   Some e \<Rightarrow> Some e
                 | None \<Rightarrow> Some (standard poseImage))
            | None \<Rightarrow>
                (case poseImages L of
                   [] \<Rightarrow> modelImageUrl s
                 | (otherKey, other) # rest \<Rightarrow> Some (standard other)))
         \<and> (objGet (poseImages L) key = None \<and> poseImages L \<noteq> [] \<longrightarrow>
              (\<exists>otherKey other. otherKey \<noteq> key \<and> objGet (poseImages L) otherKey = Some other
                 \<and> displayImageUrl s = Some (standard other)))
         \<and> (\<forall>onlyKey only. poseImages L = [(onlyKey, only)] \<and> onlyKey \<noteq> key \<longrightarrow>
              displayImageUrl s = Some (standard only))"
proof (intro conjI allI impI)
  show "displayImageUrl s =
           (case objGet (poseImages L) key of
              Some poseImage \<Rightarrow>
                (case enhanced poseImage of
                   Some e \<Rightarrow> Some e
                 | None \<Rightarrow> Some (standard poseImage))
            | None \<Rightarrow>
                (case poseImages L of
                   [] \<Rightarrow> modelImageUrl s
                 | (otherKey, other) # rest \<Rightarrow> Some (standard other)))"
    unfolding assms(3) by (rule displayImageUrl_layer[OF assms(2)])
next
  assume a: "objGet (poseImages L) key = None \<and> poseImages L \<noteq> []"
  then obtain otherKey other rest where c: "poseImages L = (otherKey, other) # rest"
    by (cases "poseImages L") auto
  with a have "otherKey \<noteq> key" by (auto split: if_splits)
  moreover from c have "objGet (poseImages L) otherKey = Some other" by simp
  moreover from a c have "displayImageUrl s = Some (standard other)"
    using displayImageUrl_layer[OF assms(2)] assms(3) by simp
  ultimately show "\<exists>otherKey other. otherKey \<noteq> key \<and> objGet (poseImages L) otherKey = Some other
                 \<and> displayImageUrl s = Some (standard other)"
    by blast
next
  fix onlyKey only
  assume "poseImages L = [(onlyKey, only)] \<and> onlyKey \<noteq> key"
  then show "displayImageUrl s = Some (standard only)"
    using displayImageUrl_layer[OF assms(2)] assms(3) by simp
qed

theorem display_fallback_chain_witness:
  "outfitHistory (exState\<lparr>currentOutfitIndex := 2\<rparr>) \<noteq> []
   \<and> arrGet (outfitHistory (exState\<lparr>currentOutfitIndex := 2\<rparr>))
        (currentOutfitIndex (exState\<lparr>currentOutfitIndex := 2\<rparr>)) = Some exLayerB
   \<and> ''Full frontal view, hands on hips''
        = propKey (arrGet POSE_INSTRUCTIONS (currentPoseIndex (exState\<lparr>currentOutfitIndex := 2\<rparr>)))
   \<and> poseImages exLayerB
        = [(''Side profile view'', \<lparr>standard = ''hat_side.png'', enhanced = None\<rparr>)]
   \<and> displayImageUrl (exState\<lparr>currentOutfitIndex := 2\<rparr>) = Some ''hat_side.png''"
proof -
  let ?s = "exState\<lparr>currentOutfitIndex := 2\<rparr>"
  have h1: "outfitHistory ?s \<noteq> []" by (simp add: ex_defs)
  have h2: "arrGet (outfitHistory ?s) (currentOutfitIndex ?s) = Some exLayerB"
    by (simp add: ex_defs arrGet_def)
  have h3: "''Full frontal view, hands on hips''
              = propKey (arrGet POSE_INSTRUCTIONS (currentPoseIndex ?s))"
    by (simp add: ex_defs arrGet_def POSE_INSTRUCTIONS_def)
  have h4: "poseImages exLayerB
              = [(''Side profile view'', \<lparr>standard = ''hat_side.png'', enhanced = None\<rparr>)]"
    by (simp add: ex_defs)
  have h5: "''Side profile view'' \<noteq> ''Full frontal view, hands on hips''" by simp
  from display_fallback_chain[OF h1 h2 h3] h4 h5
  have "displayImageUrl ?s = Some (standard \<lparr>standard = ''hat_side.png'', enhanced = None\<rparr>)"
    by blast
  with h1 h2 h3 h4 show ?thesis by simp
qed

text \<open>
  C7 (enhancement monotonicity), the failing input. In \<open>exEnhanced\<close> the base layer has an
  enhanced image for the pose at index 1, and the generation \<open>exLatePose\<close> of that pose
  for that layer is still outstanding. When it succeeds, its patch stores
  \<^verbatim>\<open>{ standard: newImageUrl }\<close> under the pose key: the entry loses its enhanced image.
\<close>

theorem late_pose_result_clears_enhanced:
  "enhancedAt (outfitHistory exEnhanced) 0 ''Slightly turned, 3/4 view''
     = Some ''model_pose1_hd.png''
   \<and> objGet (poseImages (outfitHistory
                 (resume toLowerCase exLatePose (RemoteOk ''model_pose1_late.png'') exEnhanced) ! 0))
        ''Slightly turned, 3/4 view''
     = Some \<lparr>standard = ''model_pose1_late.png'', enhanced = None\<rparr>
   \<and> enhancedAt
        (outfitHistory (resume toLowerCase exLatePose (RemoteOk ''model_pose1_late.png'') exEnhanced))
        0 ''Slightly turned, 3/4 view''
     = None"
  by (simp add: eval_defs ex_defs)

text \<open>
  How the application gets there. The user clicks the shirt in the wardrobe and, while
  its file is loading, selects pose 1, which issues \<open>exLatePose\<close>. The file arrives and
  the stale closure issues the composition next to it. The composition succeeds and
  clears the loading flag; the user removes the shirt, selects pose 1 again (the first
  request has not answered, so a second one is issued), waits for it and enhances the
  result. \<open>exLatePose\<close> is still outstanding.
\<close>

lemma exEnhanced_reachable:
  "run toLowerCase
     [WardrobeClick exShirt, PoseSelect 1, ClickLoaded 0 ''shirt.png'',
      Settle 1 (RemoteOk ''shirt_on_model.png''), RemoveLastGarment, PoseSelect 1,
      Settle 1 (RemoteOk ''model_pose1.png''), EnhanceImage,
      Settle 1 (RemoteOk ''model_pose1_hd.png'')]
     (freshTimeline exStart ''model.png'')
   = (exEnhanced, [exLatePose], [])"
  by (simp add: eval_defs ex_defs)

text \<open>
  C8 (error classification). For every message, whether it arrives as a string or as the
  message of an \<^verbatim>\<open>Error\<close>, and whatever the engine's \<^verbatim>\<open>toLowerCase\<close> is,
  \<^verbatim>\<open>getFriendlyErrorMessage\<close> decides by case-insensitive substring matching in this
  order: a message containing quota, rate limit or 429 gives the wait-and-retry text;
  otherwise one containing unsupported mime type gives the unsupported-format text, with
  the MIME type the message names between quotes, or with the words "this file type" when
  it names none; otherwise one containing blocked or safety gives the safety text;
  otherwise one containing model did not return an image gives the model-refused text;
  otherwise the generic text with the lower-cased context in it.
\<close>

theorem friendly_message_classification:
  "let r = getFriendlyErrorMessage toLowerCase (StringValue msg) context;
       rateLimited = (containsIgnoringCase toLowerCase msg ''quota''
                      \<or> containsIgnoringCase toLowerCase msg ''rate limit''
                      \<or> containsIgnoringCase toLowerCase msg ''429'');
       unsupported = containsIgnoringCase toLowerCase msg ''unsupported mime type'';
       safety = (containsIgnoringCase toLowerCase msg ''blocked''
                 \<or> containsIgnoringCase toLowerCase msg ''safety'');
       refused = containsIgnoringCase toLowerCase msg ''model did not return an image''
   in getFriendlyErrorMessage toLowerCase (ErrorObject msg) context = r
      \<and> (rateLimited \<longrightarrow>
            r = lit ''We're experiencing high demand right now. Please wait a moment and try again.'')
      \<and> (\<not> rateLimited \<and> unsupported \<longrightarrow>
            (\<forall>m. namesMimeType msg m \<longrightarrow>
                  r = lit ''Sorry, '' @ lit [CHR 0x27] @ m @ lit [CHR 0x27] @
                      lit '' is not supported. Please upload a standard image format like PNG, JPEG, or WEBP.'')
            \<and> ((\<forall>m. \<not> namesMimeType msg m) \<longrightarrow>
                  r = lit ''Sorry, this file type is not supported. Please upload a standard image format like PNG, JPEG, or WEBP.''))
      \<and> (\<not> rateLimited \<and> \<not> unsupported \<and> safety \<longrightarrow>
            r = lit ''Your request was blocked for safety reasons. This can happen with certain images or prompts. Please try a different image.'')
      \<and> (\<not> rateLimited \<and> \<not> unsupported \<and> \<not> safety \<and> refused \<longrightarrow>
            r = lit ''The AI couldn't create an image for this request. It might be too complex or unusual. Please try a different image or garment.'')
      \<and> (\<not> rateLimited \<and> \<not> unsupported \<and> \<not> safety \<and> \<not> refused \<longrightarrow>
            r = lit ''An unexpected error occurred while trying to '' @ toLowerCase context @
                lit ''. Please try again. If the problem continues, there might be a temporary issue with the service.'')"
proof -
  have none: "lit ''Sorry, '' @ lit ''this file type'' @
      lit '' is not supported. Please upload a standard image format like PNG, JPEG, or WEBP.''
    = lit ''Sorry, this file type is not supported. Please upload a standard image format like PNG, JPEG, or WEBP.''"
    by (simp add: lit_def)
  have mime: "mimeMatch msg = Some m" if "namesMimeType msg m" for m
    using that by (rule names_mimeMatch)
  have nomime: "mimeMatch msg = None" if "\<forall>m. \<not> namesMimeType msg m"
    using that by (simp add: mimeMatch_None_iff)
  show ?thesis
    unfolding Let_def getFriendlyErrorMessage_def contains_iff
    by (auto simp: mime nomime none)
qed

text \<open>
  With the lower-casing of ASCII letters: a message that mentions both a block and a quota
  is a rate-limit error (the first matching kind wins); a message that names a MIME type
  gets it quoted; a message of no known kind gets the generic text with the context in
  lower case.
\<close>

theorem friendly_message_classification_witness:
  "containsIgnoringCase asciiToLowerCase (lit ''Blocked: QUOTA exceeded'') ''quota''
   \<and> containsIgnoringCase asciiToLowerCase (lit ''Blocked: QUOTA exceeded'') ''blocked''
   \<and> getFriendlyErrorMessage asciiToLowerCase (StringValue (lit ''Blocked: QUOTA exceeded''))
        (lit ''Failed to change pose'')
     = lit ''We're experiencing high demand right now. Please wait a moment and try again.''
   \<and> getFriendlyErrorMessage asciiToLowerCase (ErrorObject (lit ''Blocked: QUOTA exceeded''))
        (lit ''Failed to change pose'')
     = lit ''We're experiencing high demand right now. Please wait a moment and try again.''
   \<and> containsIgnoringCase asciiToLowerCase (lit ''Unsupported MIME type: image/tiff, not accepted'')
        ''unsupported mime type''
   \<and> namesMimeType (lit ''Unsupported MIME type: image/tiff, not accepted'') (lit ''image/tiff'')
   \<and> getFriendlyErrorMessage asciiToLowerCase
        (StringValue (lit ''Unsupported MIME type: image/tiff, not accepted''))
        (lit ''Failed to apply garment'')
     = lit ''Sorry, '' @ lit [CHR 0x27] @ lit ''image/tiff'' @ lit [CHR 0x27] @
       lit '' is not supported. Please upload a standard image format like PNG, JPEG, or WEBP.''
   \<and> getFriendlyErrorMessage asciiToLowerCase (StringValue (lit ''Socket hang up''))
        (lit ''Failed to Apply garment'')
     = lit ''An unexpected error occurred while trying to '' @
       asciiToLowerCase (lit ''Failed to Apply garment'') @
       lit ''. Please try again. If the problem continues, there might be a temporary issue with the service.''"
proof -
  let ?q = "lit ''Blocked: QUOTA exceeded''"
  let ?m = "lit ''Unsupported MIME type: image/tiff, not accepted''"
  let ?o = "lit ''Socket hang up''"
  have q1: "containsIgnoringCase asciiToLowerCase ?q ''quota''"
    unfolding contains_iff by code_simp
  have q2: "containsIgnoringCase asciiToLowerCase ?q ''blocked''"
    unfolding contains_iff by code_simp
  have m0: "\<not> containsIgnoringCase asciiToLowerCase ?m ''quota''"
    "\<not> containsIgnoringCase asciiToLowerCase ?m ''rate limit''"
    "\<not> containsIgnoringCase asciiToLowerCase ?m ''429''"
    unfolding contains_iff by code_simp+
  have m1: "containsIgnoringCase asciiToLowerCase ?m ''unsupported mime type''"
    unfolding contains_iff by code_simp
  have "mimeMatch ?m = Some (lit ''image/tiff'')" by code_simp
  then have m2: "namesMimeType ?m (lit ''image/tiff'')" by (simp add: mimeMatch_iff)
  have o0: "\<not> containsIgnoringCase asciiToLowerCase ?o ''quota''"
    "\<not> containsIgnoringCase asciiToLowerCase ?o ''rate limit''"
    "\<not> containsIgnoringCase asciiToLowerCase ?o ''429''"
    "\<not> containsIgnoringCase asciiToLowerCase ?o ''unsupported mime type''"
    "\<not> containsIgnoringCase asciiToLowerCase ?o ''blocked''"
    "\<not> containsIgnoringCase asciiToLowerCase ?o ''safety''"
    "\<not> containsIgnoringCase asciiToLowerCase ?o ''model did not return an image''"
    unfolding contains_iff by code_simp+
  from friendly_message_classification[of asciiToLowerCase ?q "lit ''Failed to change pose''"] q1
  have r1: "getFriendlyErrorMessage asciiToLowerCase (StringValue ?q) (lit ''Failed to change pose'')
       = lit ''We're experiencing high demand right now. Please wait a moment and try again.''"
    and r2: "getFriendlyErrorMessage asciiToLowerCase (ErrorObject ?q) (lit ''Failed to change pose'')
       = lit ''We're experiencing high demand right now. Please wait a moment and try again.''"
    unfolding Let_def by simp_all
  from friendly_message_classification[of asciiToLowerCase ?m "lit ''Failed to apply garment''"]
    m0 m1 m2
  have r3: "getFriendlyErrorMessage asciiToLowerCase (StringValue ?m) (lit ''Failed to apply garment'')
       = lit ''Sorry, '' @ lit [CHR 0x27] @ lit ''image/tiff'' @ lit [CHR 0x27] @
         lit '' is not supported. Please upload a standard image format like PNG, JPEG, or WEBP.''"
    unfolding Let_def by blast
  from friendly_message_classification[of asciiToLowerCase ?o "lit ''Failed to Apply garment''"] o0
  have r4: "getFriendlyErrorMessage asciiToLowerCase (StringValue ?o) (lit ''Failed to Apply garment'')
       = lit ''An unexpected error occurred while trying to '' @
         asciiToLowerCase (lit ''Failed to Apply garment'') @
         lit ''. Please try again. If the problem continues, there might be a temporary issue with the service.''"
    unfolding Let_def by blast
  from q1 q2 r1 r2 m1 m2 r3 r4 show ?thesis by blast
qed

text \<open>The texts as the user reads them.\<close>

lemma classification_examples:
  "getFriendlyErrorMessage asciiToLowerCase
     (ErrorObject (lit ''Unsupported MIME type: image/tiff, not accepted'')) (lit ''Failed to apply garment'')
   = lit ''Sorry, 'image/tiff' is not supported. Please upload a standard image format like PNG, JPEG, or WEBP.''"
  "getFriendlyErrorMessage asciiToLowerCase
     (ErrorObject (lit ''unsupported mime type: image/tiff'')) (lit ''Failed to apply garment'')
   = lit ''Sorry, this file type is not supported. Please upload a standard image format like PNG, JPEG, or WEBP.''"
  "getFriendlyErrorMessage asciiToLowerCase (StringValue (lit ''Request BLOCKED''))
     (lit ''Failed to apply garment'')
   = lit ''Your request was blocked for safety reasons. This can happen with certain images or prompts. Please try a different image.''"
  "getFriendlyErrorMessage asciiToLowerCase (StringValue (lit ''Model did not return an image.''))
     (lit ''Failed to apply garment'')
   = lit ''The AI couldn't create an image for this request. It might be too complex or unusual. Please try a different image or garment.''"
  "getFriendlyErrorMessage asciiToLowerCase (StringValue (lit ''Socket hang up''))
     (lit ''Failed to Apply garment'')
   = lit ''An unexpected error occurred while trying to failed to apply garment. Please try again. If the problem continues, there might be a temporary issue with the service.''"
  "getFriendlyErrorMessage asciiToLowerCase OtherFalsy (lit ''Failed to enhance image'')
   = lit ''An unexpected error occurred while trying to failed to enhance image. Please try again. If the problem continues, there might be a temporary issue with the service.''"
  by code_simp+

text \<open>
  C9, as stated, fails: with an error on display, the redo path of
  \<^verbatim>\<open>handleGarmentSelect\<close> and \<^verbatim>\<open>handleRemoveLastGarment\<close> complete and leave the error
  where it was.
\<close>

theorem synchronous_actions_keep_error:
  "handleGarmentSelect
     (exState\<lparr>error := Some (lit ''We're experiencing high demand right now. Please wait a moment and try again.'')\<rparr>)
     ''hat.png'' exHat
     = (exState\<lparr>error := Some (lit ''We're experiencing high demand right now. Please wait a moment and try again.''),
                currentOutfitIndex := 2, currentPoseIndex := 0\<rparr>, None)
   \<and> handleRemoveLastGarment
       (exState\<lparr>error := Some (lit ''We're experiencing high demand right now. Please wait a moment and try again.'')\<rparr>)
     = Inr (exState\<lparr>error := Some (lit ''We're experiencing high demand right now. Please wait a moment and try again.''),
                   currentOutfitIndex := 0, currentPoseIndex := 0\<rparr>)"
  by (simp add: eval_defs ex_defs)

text \<open>
  The state of the counterexample arises when a pose generation fails with the shirt
  layer current.
\<close>

lemma error_state_reachable:
  "run asciiToLowerCase
     [WardrobeClick exShirt, ClickLoaded 0 ''shirt.png'', Settle 0 (RemoteOk ''shirt_on_model.png''),
      PoseSelect 2, Settle 0 (RemoteOk ''shirt_side.png''),
      WardrobeClick exHat, ClickLoaded 0 ''hat.png'', Settle 0 (RemoteOk ''hat_side.png''),
      RemoveLastGarment, PoseSelect 1, Settle 0 (RemoteFail (lit ''429 Too Many Requests''))]
     (freshTimeline exStart ''model.png'')
   = (exState\<lparr>error := Some (lit ''We're experiencing high demand right now. Please wait a moment and try again.'')\<rparr>,
      [], [])"
proof -
  have "getFriendlyErrorMessage asciiToLowerCase (StringValue (lit ''429 Too Many Requests''))
          (lit ''Failed to change pose'')
        = lit ''We're experiencing high demand right now. Please wait a moment and try again.''"
    by code_simp
  then show ?thesis by (simp add: eval_defs ex_defs)
qed

text \<open>What each handler does to the stored error.\<close>

lemma handleGarmentSelectFrom_error:
  assumes "handleGarmentSelectFrom c s garmentFile garmentInfo = (s', p)"
  shows "error s' = (if p = None then error s else None)"
  using assms by (cases rule: handleGarmentSelectFrom_cases) simp_all

lemma handlePoseSelect_error:
  assumes "handlePoseSelect s newIndex = Inr (s', p)"
  shows "error s' = (if p = None then error s else None)"
  using assms by (cases rule: handlePoseSelect_cases) simp_all

lemma handleEnhanceImage_error:
  assumes "handleEnhanceImage s = Inr (s', p)"
  shows "error s' = (if p = None then error s else None)"
  using assms by (cases rule: handleEnhanceImage_cases) simp_all

lemma handleRemoveLastGarment_error:
  assumes "handleRemoveLastGarment s = Inr s'"
  shows "error s' = error s"
  using assms by (cases rule: handleRemoveLastGarment_cases) simp_all

lemma resume_ok_error: "error (resume toLowerCase q (RemoteOk u) t) = error t"
  by (cases q) simp_all

text \<open>
  C9, amended. A handler call that issues a remote call (garment composition, from the
  latest render or from a stale one; pose generation; enhancement) sets the stored error
  to null as it issues the call. A handler call that issues none (the redo path of
  \<^verbatim>\<open>handleGarmentSelect\<close>, a pose already generated, an image already enhanced,
  \<^verbatim>\<open>handleRemoveLastGarment\<close>, a handler that returns at its guard) leaves the stored
  error as it was. The success branch of a remote call does not write the error: when the
  call succeeds, the stored error is what it was just before.
\<close>

theorem error_cleared_when_call_is_issued:
  "(case handleGarmentSelectFrom c s garmentFile garmentInfo of
      (s', None) \<Rightarrow> error s' = error s
    | (s', Some p) \<Rightarrow> error s' = None)
   \<and> (case handleGarmentSelect s garmentFile garmentInfo of
        (s', None) \<Rightarrow> error s' = error s
      | (s', Some p) \<Rightarrow> error s' = None)
   \<and> (case handlePoseSelect s newIndex of
        Inl e \<Rightarrow> e = TypeError
      | Inr (s', None) \<Rightarrow> error s' = error s
      | Inr (s', Some p) \<Rightarrow> error s' = None)
   \<and> (case handleEnhanceImage s of
        Inl e \<Rightarrow> e = TypeError
      | Inr (s', None) \<Rightarrow> error s' = error s
      | Inr (s', Some p) \<Rightarrow> error s' = None)
   \<and> (case handleRemoveLastGarment s of
        Inl e \<Rightarrow> e = TypeError
      | Inr s' \<Rightarrow> error s' = error s)
   \<and> error (resume toLowerCase q (RemoteOk u) t) = error t"
proof -
  have 1: "(case handleGarmentSelectFrom c s garmentFile garmentInfo of
      (s', None) \<Rightarrow> error s' = error s
    | (s', Some p) \<Rightarrow> error s' = None)" for c
  proof -
    obtain s' p where h: "handleGarmentSelectFrom c s garmentFile garmentInfo = (s', p)"
      by fastforce
    then have "error s' = (if p = None then error s else None)"
      by (rule handleGarmentSelectFrom_error)
    with h show ?thesis by (cases p) simp_all
  qed
  from 1[of s] have 2: "(case handleGarmentSelect s garmentFile garmentInfo of
        (s', None) \<Rightarrow> error s' = error s
      | (s', Some p) \<Rightarrow> error s' = None)"
    by (simp add: handleGarmentSelectFrom_latest)
  have 3: "(case handlePoseSelect s newIndex of
        Inl e \<Rightarrow> e = TypeError
      | Inr (s', None) \<Rightarrow> error s' = error s
      | Inr (s', Some p) \<Rightarrow> error s' = None)"
  proof (cases "handlePoseSelect s newIndex")
    case (Inl e)
    then show ?thesis by (cases e) simp
  next
    case (Inr r)
    obtain s' p where r: "r = (s', p)" by (cases r)
    with Inr have h: "handlePoseSelect s newIndex = Inr (s', p)" by simp
    then have "error s' = (if p = None then error s else None)"
      by (rule handlePoseSelect_error)
    with h show ?thesis by (cases p) simp_all
  qed
  have 4: "(case handleEnhanceImage s of
        Inl e \<Rightarrow> e = TypeError
      | Inr (s', None) \<Rightarrow> error s' = error s
      | Inr (s', Some p) \<Rightarrow> error s' = None)"
  proof (cases "handleEnhanceImage s")
    case (Inl e)
    then show ?thesis by (cases e) simp
  next
    case (Inr r)
    obtain s' p where r: "r = (s', p)" by (cases r)
    with Inr have h: "handleEnhanceImage s = Inr (s', p)" by simp
    then have "error s' = (if p = None then error s else None)"
      by (rule handleEnhanceImage_error)
    with h show ?thesis by (cases p) simp_all
  qed
  have 5: "(case handleRemoveLastGarment s of
        Inl e \<Rightarrow> e = TypeError
      | Inr s' \<Rightarrow> error s' = error s)"
  proof (cases "handleRemoveLastGarment s")
    case (Inl e)
    then show ?thesis by (cases e) simp
  next
    case (Inr s')
    then have "error s' = error s" by (rule handleRemoveLastGarment_error)
    with Inr show ?thesis by simp
  qed
  have 6: "error (resume toLowerCase q (RemoteOk u) t) = error t"
    by (rule resume_ok_error)
  from 1[of c] 2 3 4 5 6 show ?thesis by - (intro conjI; assumption)
qed

text \<open>
  In \<open>exState\<close> with an error on display: selecting the pose at index 1, which has no
  image, issues a call and clears the error; removing the shirt leaves the error; the
  success of a call leaves the error of the moment.
\<close>

theorem error_cleared_when_call_is_issued_witness:
  "handlePoseSelect (exState\<lparr>error := Some (lit ''Connection lost'')\<rparr>) 1
     = Inr (exState\<lparr>error := None, isLoading := True, loadingMessage := ''Changing pose...'',
                     currentPoseIndex := 1\<rparr>,
            Some (PendingPoseSelect ''shirt_on_model.png'' (Some ''Slightly turned, 3/4 view'') 1 0))
   \<and> error (exState\<lparr>error := None, isLoading := True, loadingMessage := ''Changing pose...'',
                     currentPoseIndex := 1\<rparr>) = None
   \<and> handleRemoveLastGarment (exState\<lparr>error := Some (lit ''Connection lost'')\<rparr>)
     = Inr (exState\<lparr>error := Some (lit ''Connection lost''), currentOutfitIndex := 0, currentPoseIndex := 0\<rparr>)
   \<and> error (exState\<lparr>error := Some (lit ''Connection lost''), currentOutfitIndex := 0, currentPoseIndex := 0\<rparr>)
     = error (exState\<lparr>error := Some (lit ''Connection lost'')\<rparr>)
   \<and> error (resume asciiToLowerCase
              (PendingPoseSelect ''shirt_on_model.png'' (Some ''Slightly turned, 3/4 view'') 1 0)
              (RemoteOk ''shirt_pose1.png'')
              (exState\<lparr>error := Some (lit ''Connection lost''), isLoading := True\<rparr>))
     = Some (lit ''Connection lost'')"
proof -
  let ?s = "exState\<lparr>error := Some (lit ''Connection lost'')\<rparr>"
  let ?p = "PendingPoseSelect ''shirt_on_model.png'' (Some ''Slightly turned, 3/4 view'') 1 0"
  let ?t = "exState\<lparr>error := Some (lit ''Connection lost''), isLoading := True\<rparr>"
  have a: "handlePoseSelect ?s 1
     = Inr (exState\<lparr>error := None, isLoading := True, loadingMessage := ''Changing pose...'',
                     currentPoseIndex := 1\<rparr>, Some ?p)"
    by (simp add: eval_defs ex_defs)
  have b: "handleRemoveLastGarment ?s
     = Inr (exState\<lparr>error := Some (lit ''Connection lost''), currentOutfitIndex := 0, currentPoseIndex := 0\<rparr>)"
    by (simp add: eval_defs ex_defs)
  have t: "error ?t = Some (lit ''Connection lost'')" by simp
  from error_cleared_when_call_is_issued[of ?s ?s "''hat.png''" exHat 1 asciiToLowerCase ?p
      "''shirt_pose1.png''" ?t] a b t
  show ?thesis by simp
qed

text \<open>
  Over runs of the dressing screen: only a failing remote call and the failing wardrobe
  fetch store an error. Every other event leaves the stored error or sets it to null, so
  from a state without an error, and in particular from the moment a call is issued, the
  stored error is null until one of the two happens.
\<close>

lemma step_error:
  assumes "ev \<noteq> WardrobeFetchFailed" and "\<And>n e. ev \<noteq> Settle n (RemoteFail e)"
  shows "error (fst (step toLowerCase ev (s, ps, cs))) = error s
         \<or> error (fst (step toLowerCase ev (s, ps, cs))) = None"
proof (cases ev)
  case (WardrobeClick item)
  then show ?thesis by simp
next
  case (ClickLoaded n garmentFile)
  show ?thesis
  proof (cases "n < length cs")
    case True
    obtain s' p where h: "handleGarmentSelectFrom (fst (cs ! n)) s garmentFile (snd (cs ! n)) = (s', p)"
      by fastforce
    from handleGarmentSelectFrom_error[OF h] h True ClickLoaded show ?thesis
      by (simp split: if_splits)
  next
    case False
    with ClickLoaded show ?thesis by simp
  qed
next
  case (ClickFailed n)
  then show ?thesis by simp
next
  case (GarmentSelect garmentFile garmentInfo)
  obtain s' p where h: "handleGarmentSelectFrom s s garmentFile garmentInfo = (s', p)"
    by fastforce
  from handleGarmentSelectFrom_error[OF h] h GarmentSelect show ?thesis
    by (simp add: handleGarmentSelectFrom_latest split: if_splits)
next
  case RemoveLastGarment
  show ?thesis
  proof (cases "handleRemoveLastGarment s")
    case (Inl a)
    with RemoveLastGarment show ?thesis by simp
  next
    case (Inr s')
    from handleRemoveLastGarment_error[OF Inr] Inr RemoveLastGarment show ?thesis by simp
  qed
next
  case (PoseSelect newIndex)
  show ?thesis
  proof (cases "handlePoseSelect s newIndex")
    case (Inl a)
    with PoseSelect show ?thesis by simp
  next
    case (Inr r)
    obtain s' p where "r = (s', p)" by (cases r)
    with Inr have h: "handlePoseSelect s newIndex = Inr (s', p)" by simp
    from handlePoseSelect_error[OF h] h PoseSelect show ?thesis by (simp split: if_splits)
  qed
next
  case EnhanceImage
  show ?thesis
  proof (cases "handleEnhanceImage s")
    case (Inl a)
    with EnhanceImage show ?thesis by simp
  next
    case (Inr r)
    obtain s' p where "r = (s', p)" by (cases r)
    with Inr have h: "handleEnhanceImage s = Inr (s', p)" by simp
    from handleEnhanceImage_error[OF h] h EnhanceImage show ?thesis by (simp split: if_splits)
  qed
next
  case (Settle n r)
  with assms(2) obtain u where "r = RemoteOk u" by (cases r) auto
  with Settle show ?thesis by (simp add: resume_ok_error)
next
  case (WardrobeFetched items)
  then show ?thesis by (simp add: wardrobeFetched_def)
next
  case WardrobeFetchFailed
  with assms(1) show ?thesis by simp
qed

lemma error_null_until_failure:
  assumes "error s = None" and "WardrobeFetchFailed \<notin> set evs"
    and "\<And>n e. Settle n (RemoteFail e) \<notin> set evs"
  shows "error (fst (run toLowerCase evs (s, ps, cs))) = None"
  using assms
proof (induction evs arbitrary: s ps cs)
  case Nil
  then show ?case by simp
next
  case (Cons ev evs)
  obtain s' ps' cs' where st: "step toLowerCase ev (s, ps, cs) = (s', ps', cs')"
    by (cases "step toLowerCase ev (s, ps, cs)") auto
  from Cons.prems have "ev \<noteq> WardrobeFetchFailed" and "\<And>n e. ev \<noteq> Settle n (RemoteFail e)"
    by auto
  from step_error[OF this, of toLowerCase s ps cs] st Cons.prems(1)
  have "error s' = None" by auto
  moreover from Cons.prems have "WardrobeFetchFailed \<notin> set evs"
    and "\<And>n e. Settle n (RemoteFail e) \<notin> set evs" by auto
  ultimately have "error (fst (run toLowerCase evs (s', ps', cs'))) = None"
    by (rule Cons.IH)
  with st show ?case by simp
qed

text \<open>
  A successful remote action may still end with an error on display: the null written
  when the call was issued is overwritten by whatever fails while the call is outstanding,
  here the wardrobe fetch.
\<close>

lemma error_written_during_call:
  "error (fst (run asciiToLowerCase
                 [PoseSelect 1, WardrobeFetchFailed, Settle 0 (RemoteOk ''model_pose1.png'')]
                 (freshTimeline exStart ''model.png'')))
   = Some (lit ''Could not load wardrobe items from the database.'')"
  by (simp add: eval_defs ex_defs)

text \<open>
  C10 (enhancement without an entry for the pose). In every state (not busy, showing an
  image) whose current layer has no entry for the current pose, \<^verbatim>\<open>handleEnhanceImage\<close>
  issues the enhance call with the displayed image. When the call succeeds, the outfit
  history, the cursor and the pose index are what they were before the call: the patch
  applies only to an existing entry of the pose, so the enhanced image is dropped.
\<close>

theorem enhance_without_entry_is_discarded:
  assumes "\<not> isLoading s" and "truthy (displayImageUrl s)"
    and "arrGet (outfitHistory s) (currentOutfitIndex s) = Some L"
    and "objGet (poseImages L) (propKey (arrGet POSE_INSTRUCTIONS (currentPoseIndex s))) = None"
  shows "\<exists>s' img.
           handleEnhanceImage s =
             Inr (s', Some (PendingEnhance img (arrGet POSE_INSTRUCTIONS (currentPoseIndex s))
                              (currentOutfitIndex s)))
           \<and> displayImageUrl s = Some img
           \<and> outfitHistory s' = outfitHistory s
           \<and> currentOutfitIndex s' = currentOutfitIndex s
           \<and> currentPoseIndex s' = currentPoseIndex s
           \<and> outfitHistory
                (resume toLowerCase (PendingEnhance img (arrGet POSE_INSTRUCTIONS (currentPoseIndex s))
                           (currentOutfitIndex s)) (RemoteOk e) s') = outfitHistory s
           \<and> currentOutfitIndex
                (resume toLowerCase (PendingEnhance img (arrGet POSE_INSTRUCTIONS (currentPoseIndex s))
                           (currentOutfitIndex s)) (RemoteOk e) s') = currentOutfitIndex s
           \<and> currentPoseIndex
                (resume toLowerCase (PendingEnhance img (arrGet POSE_INSTRUCTIONS (currentPoseIndex s))
                           (currentOutfitIndex s)) (RemoteOk e) s') = currentPoseIndex s"
proof -
  from assms(2) obtain img where img: "displayImageUrl s = Some img" "img \<noteq> []"
    by (auto simp: truthy_iff)
  let ?k = "arrGet POSE_INSTRUCTIONS (currentPoseIndex s)"
  let ?s' = "s\<lparr>error := None, isLoading := True, loadingMessage := ''Enhancing image quality...''\<rparr>"
  have start: "handleEnhanceImage s = Inr (?s', Some (PendingEnhance img ?k (currentOutfitIndex s)))"
    using assms img by (simp add: handleEnhanceImage_def)
  have L: "nat (currentOutfitIndex s) < length (outfitHistory s)"
    "outfitHistory s ! nat (currentOutfitIndex s) = L"
    using assms(3) by (auto simp: arrGet_def split: if_splits)
  have "mapIndexed (\<lambda>index layer.
            if int index \<noteq> currentOutfitIndex s then layer
            else (case objGet (poseImages layer) (propKey ?k) of
                    None \<Rightarrow> layer
                  | Some poseToUpdate \<Rightarrow>
                      layer\<lparr>poseImages :=
                        objSet (poseImages layer) (propKey ?k)
                          (poseToUpdate\<lparr>enhanced := Some e\<rparr>)\<rparr>))
          (outfitHistory s) = outfitHistory s"
  proof (rule nth_equalityI)
    show "length (mapIndexed (\<lambda>index layer.
            if int index \<noteq> currentOutfitIndex s then layer
            else (case objGet (poseImages layer) (propKey ?k) of
                    None \<Rightarrow> layer
                  | Some poseToUpdate \<Rightarrow>
                      layer\<lparr>poseImages :=
                        objSet (poseImages layer) (propKey ?k)
                          (poseToUpdate\<lparr>enhanced := Some e\<rparr>)\<rparr>))
          (outfitHistory s)) = length (outfitHistory s)"
      by simp
  next
    fix i
    assume "i < length (mapIndexed (\<lambda>index layer.
            if int index \<noteq> currentOutfitIndex s then layer
            else (case objGet (poseImages layer) (propKey ?k) of
                    None \<Rightarrow> layer
                  | Some poseToUpdate \<Rightarrow>
                      layer\<lparr>poseImages :=
                        objSet (poseImages layer) (propKey ?k)
                          (poseToUpdate\<lparr>enhanced := Some e\<rparr>)\<rparr>))
          (outfitHistory s))"
    then have i: "i < length (outfitHistory s)" by simp
    show "mapIndexed (\<lambda>index layer.
            if int index \<noteq> currentOutfitIndex s then layer
            else (case objGet (poseImages layer) (propKey ?k) of
                    None \<Rightarrow> layer
                  | Some poseToUpdate \<Rightarrow>
                      layer\<lparr>poseImages :=
                        objSet (poseImages layer) (propKey ?k)
                          (poseToUpdate\<lparr>enhanced := Some e\<rparr>)\<rparr>))
          (outfitHistory s) ! i = outfitHistory s ! i"
    proof (cases "int i = currentOutfitIndex s")
      case True
      then have "i = nat (currentOutfitIndex s)" by simp
      with L assms(4) True i show ?thesis by simp
    next
      case False
      with i show ?thesis by simp
    qed
  qed
  then show ?thesis using start img by simp
qed

theorem enhance_without_entry_is_discarded_witness:
  "\<not> isLoading (exState\<lparr>currentOutfitIndex := 2\<rparr>)
   \<and> truthy (displayImageUrl (exState\<lparr>currentOutfitIndex := 2\<rparr>))
   \<and> arrGet (outfitHistory (exState\<lparr>currentOutfitIndex := 2\<rparr>))
        (currentOutfitIndex (exState\<lparr>currentOutfitIndex := 2\<rparr>)) = Some exLayerB
   \<and> objGet (poseImages exLayerB)
        (propKey (arrGet POSE_INSTRUCTIONS (currentPoseIndex (exState\<lparr>currentOutfitIndex := 2\<rparr>))))
       = None
   \<and> handleEnhanceImage (exState\<lparr>currentOutfitIndex := 2\<rparr>)
       = Inr (exState\<lparr>currentOutfitIndex := 2, error := None, isLoading := True,
                     loadingMessage := ''Enhancing image quality...''\<rparr>,
              Some (PendingEnhance ''hat_side.png'' (Some ''Full frontal view, hands on hips'') 2))
   \<and> outfitHistory
        (resume asciiToLowerCase (PendingEnhance ''hat_side.png'' (Some ''Full frontal view, hands on hips'') 2)
           (RemoteOk ''hat_side_hd.png'')
           (exState\<lparr>currentOutfitIndex := 2, error := None, isLoading := True,
                    loadingMessage := ''Enhancing image quality...''\<rparr>))
       = outfitHistory (exState\<lparr>currentOutfitIndex := 2\<rparr>)"
proof -
  let ?s = "exState\<lparr>currentOutfitIndex := 2\<rparr>"
  let ?s' = "exState\<lparr>currentOutfitIndex := 2, error := None, isLoading := True,
                    loadingMessage := ''Enhancing image quality...''\<rparr>"
  let ?pend = "PendingEnhance ''hat_side.png'' (Some ''Full frontal view, hands on hips'') 2"
  have h1: "\<not> isLoading ?s" by (simp add: ex_defs)
  have h2: "truthy (displayImageUrl ?s)" by (simp add: exState_tip_display)
  have h3: "arrGet (outfitHistory ?s) (currentOutfitIndex ?s) = Some exLayerB"
    by (simp add: ex_defs arrGet_def)
  have h4: "objGet (poseImages exLayerB)
              (propKey (arrGet POSE_INSTRUCTIONS (currentPoseIndex ?s))) = None"
    by (simp add: ex_defs arrGet_def POSE_INSTRUCTIONS_def)
  have start: "handleEnhanceImage ?s = Inr (?s', Some ?pend)"
    by (simp add: eval_defs ex_defs)
  from enhance_without_entry_is_discarded[OF h1 h2 h3 h4, of asciiToLowerCase "''hat_side_hd.png''"] start
  have "outfitHistory (resume asciiToLowerCase ?pend (RemoteOk ''hat_side_hd.png'') ?s') = outfitHistory ?s"
    by auto
  with h1 h2 h3 h4 start show ?thesis by simp
qed

end
